theory Spec2Isabelle
  imports Main "HOL-Library.Word"
begin

unbundle bit_operations_syntax

section \<open>Bytes, errors and the settings shared by header and footer\<close>

type_synonym byte = "8 word"
type_synonym ByteVector = "byte list"

text \<open>The errors the two source files raise or let through. \<open>ArgumentOutOfRange\<close> stands for
  the plain \<open>Error("Argument out of range: ...")\<close>, \<open>FeatureNotSupported\<close> for
  \<open>Error("Feature only supported in ...")\<close>, \<open>GuardFailure\<close> for a failed \<open>Guards\<close> check and
  \<open>TypeError\<close> for the run-time error of using \<open>undefined\<close> as an object.\<close>

datatype error =
    CorruptFileError
  | NotImplementedError
  | FormatError
  | ArgumentOutOfRange
  | FeatureNotSupported
  | GuardFailure
  | TypeError
  | OtherError

text \<open>Modelled from the spec: \<open>Id3v2TagSettings\<close> is not among the sources; header and footer
  are both fixed 10-byte structures.\<close>

definition headerSize :: nat where
  "headerSize = 10"

definition footerSize :: nat where
  "footerSize = 10"

text \<open>Modelled from the spec: \<open>HeaderFlags\<close> is not among the sources; bit 7 is
  Unsynchronized, bit 6 ExtendedHeader, bit 5 ExperimentalIndicator, bit 4 FooterPresent.\<close>

definition Unsynchronication :: byte where
  "Unsynchronication = 0x80"

definition ExtendedHeader :: byte where
  "ExtendedHeader = 0x40"

definition ExperimentalIndicator :: byte where
  "ExperimentalIndicator = 0x20"

definition FooterPresent :: byte where
  "FooterPresent = 0x10"

section \<open>SyncData: sync-safe integers\<close>

text \<open>Modelled from the spec: \<open>SyncData\<close> is not among the sources. \<open>toUint\<close> reads each byte
  as a 7-bit group, most significant group first, and fails with a format error when a byte is
  128 or more.\<close>

definition SyncData_toUint :: "ByteVector \<Rightarrow> error + nat" where
  "SyncData_toUint bs =
     (if list_ex (\<lambda>b. 128 \<le> b) bs then Inl FormatError
      else Inr (foldl (\<lambda>acc b. acc * 128 + unat b) 0 bs))"

text \<open>Modelled from the spec: \<open>fromUint\<close> splits the low 28 bits of the value into four 7-bit
  groups, most significant first, each a byte with top bit 0.\<close>

definition SyncData_fromUint :: "nat \<Rightarrow> ByteVector" where
  "SyncData_fromUint v =
     [of_nat ((v div 2 ^ 21) mod 128), of_nat ((v div 2 ^ 14) mod 128),
      of_nat ((v div 2 ^ 7) mod 128), of_nat (v mod 128)]"

section \<open>Footer (footer.ts)\<close>

record Footer =
  footer_flags :: byte
  footer_majorVersion :: byte
  footer_revisionNumber :: byte
  footer_tagSize :: nat

text \<open>\<open>ByteVector.fromString("3DI")\<close>.\<close>

definition Footer_fileIdentifier :: ByteVector where
  "Footer_fileIdentifier = [0x33, 0x44, 0x49]"

definition startsWith :: "ByteVector \<Rightarrow> ByteVector \<Rightarrow> bool" where
  "startsWith data pat = (take (length pat) data = pat)"

definition mid :: "ByteVector \<Rightarrow> nat \<Rightarrow> nat \<Rightarrow> ByteVector" where
  "mid data start len = take len (drop start data)"

text \<open>The setters return the error raised, if any, together with the footer as the call leaves
  it. \<open>Guards.uint\<close> accepts the unsigned 32-bit integers.\<close>

definition Footer_set_tagSize :: "nat \<Rightarrow> Footer \<Rightarrow> error option \<times> Footer" where
  "Footer_set_tagSize v f =
     (if \<not> v < 2 ^ 32 then (Some GuardFailure, f)
      else (None, f\<lparr>footer_tagSize := v\<rparr>))"

definition Footer_get_majorVersion :: "byte \<Rightarrow> Footer \<Rightarrow> byte" where
  "Footer_get_majorVersion defaultVersion f =
     (if footer_majorVersion f = 0 then defaultVersion else footer_majorVersion f)"

definition Footer_set_majorVersion :: "int \<Rightarrow> Footer \<Rightarrow> error option \<times> Footer" where
  "Footer_set_majorVersion v f =
     (if v \<noteq> 4 then (Some ArgumentOutOfRange, f)
      else (None, f\<lparr>footer_majorVersion := 4\<rparr>))"

definition Footer_set_flags :: "byte \<Rightarrow> byte \<Rightarrow> Footer \<Rightarrow> error option \<times> Footer" where
  "Footer_set_flags defaultVersion v f =
     (let version3Flags = ExtendedHeader OR ExperimentalIndicator in
      if 0 < (v AND version3Flags) \<and> Footer_get_majorVersion defaultVersion f < 3
      then (Some FeatureNotSupported, f)
      else let version4Flags = FooterPresent in
        if 0 < (v AND version4Flags) \<and> Footer_get_majorVersion defaultVersion f < 4
        then (Some FeatureNotSupported, f)
        else (None, f\<lparr>footer_flags := v\<rparr>))"

definition Footer_set_revisionNumber :: "int \<Rightarrow> Footer \<Rightarrow> error option \<times> Footer" where
  "Footer_set_revisionNumber v f =
     (if \<not> (0 \<le> v \<and> v \<le> 255) then (Some GuardFailure, f)
      else (None, f\<lparr>footer_revisionNumber := of_int v\<rparr>))"

definition Footer_completeTagSize :: "Footer \<Rightarrow> nat" where
  "Footer_completeTagSize f = footer_tagSize f + headerSize + footerSize"

text \<open>\<open>Footer.fromData\<close>: the length and identifier checks, the three flag checks, the loop
  over the four size bytes, then the size through the \<open>tagSize\<close> setter. The fields of the
  fresh object are written directly, not through the setters.\<close>

definition Footer_fromData :: "ByteVector \<Rightarrow> error + Footer" where
  "Footer_fromData data =
     (if length data < footerSize then Inl CorruptFileError
      else if \<not> startsWith data Footer_fileIdentifier then Inl CorruptFileError
      else
        let mv = data ! 3; rev = data ! 4; fl = data ! 5 in
        if mv = 2 \<and> 0 < (fl AND 127) then Inl CorruptFileError
        else if mv = 3 \<and> 0 < (fl AND 15) then Inl CorruptFileError
        else if mv = 4 \<and> 0 < (fl AND 7) then Inl CorruptFileError
        else if list_ex (\<lambda>i. 128 \<le> data ! i) [6 ..< 10] then Inl CorruptFileError
        else
          (case SyncData_toUint (mid data 6 4) of
             Inl e \<Rightarrow> Inl e
           | Inr n \<Rightarrow>
               (case Footer_set_tagSize n
                       \<lparr>footer_flags = fl, footer_majorVersion = mv,
                        footer_revisionNumber = rev, footer_tagSize = 0\<rparr> of
                  (Some e, _) \<Rightarrow> Inl e
                | (None, footer) \<Rightarrow> Inr footer)))"

definition Footer_render :: "byte \<Rightarrow> Footer \<Rightarrow> ByteVector" where
  "Footer_render defaultVersion f =
     Footer_fileIdentifier
     @ [Footer_get_majorVersion defaultVersion f, footer_revisionNumber f, footer_flags f]
     @ SyncData_fromUint (footer_tagSize f)"


fun SyncData_resyncByteVector :: "ByteVector \<Rightarrow> ByteVector" where
  "SyncData_resyncByteVector (a # b # rest) =
     (if a = 0xFF \<and> b = 0
      then a # SyncData_resyncByteVector rest
      else a # SyncData_resyncByteVector (b # rest))"
| "SyncData_resyncByteVector bs = bs"

section \<open>Header\<close>

text \<open>Modelled from the spec: \<open>header.ts\<close> is not among the sources. A header has the
  attributes of a footer; its identifier is "ID3"; parsing applies the checks of the footer;
  the version setter accepts 2 to 4, and the flags setter refuses a bit that needs a higher
  version than the header has.\<close>

record Header =
  header_flags :: byte
  header_majorVersion :: byte
  header_revisionNumber :: byte
  header_tagSize :: nat

definition Header_fileIdentifier :: ByteVector where
  "Header_fileIdentifier = [0x49, 0x44, 0x33]"

definition Header_fromData :: "ByteVector \<Rightarrow> error + Header" where
  "Header_fromData data =
     (if length data < headerSize then Inl CorruptFileError
      else if \<not> startsWith data Header_fileIdentifier then Inl CorruptFileError
      else
        let mv = data ! 3; rev = data ! 4; fl = data ! 5 in
        if mv = 2 \<and> 0 < (fl AND 127) then Inl CorruptFileError
        else if mv = 3 \<and> 0 < (fl AND 15) then Inl CorruptFileError
        else if mv = 4 \<and> 0 < (fl AND 7) then Inl CorruptFileError
        else if list_ex (\<lambda>i. 128 \<le> data ! i) [6 ..< 10] then Inl CorruptFileError
        else
          (case SyncData_toUint (mid data 6 4) of
             Inl e \<Rightarrow> Inl e
           | Inr n \<Rightarrow>
               Inr \<lparr>header_flags = fl, header_majorVersion = mv,
                    header_revisionNumber = rev, header_tagSize = n\<rparr>))"



section \<open>Frames and the tag (id3v2Tag.ts)\<close>

text \<open>The frame classes, the frame factory, the extended header and the file are outside the
  two source files. A frame is modelled by what the tag reads and writes of it: identifier, class,
  flags, size, text and text encoding. Its flags word is the set of the bits that are on.
  Frames are compared by value.\<close>

datatype Id3v2FrameFlag = Desynchronized | TagAlterPreservation | OtherFrameFlag nat

datatype FrameClassType =
    TextInformationFrame
  | UserTextInformationFrame
  | UrlLinkFrame
  | CommentsFrame
  | UnsynchronizedLyricsFrame
  | OtherFrameClass nat

datatype StringType = Latin1 | UTF16 | UTF16BE | UTF8 | UTF16LE

datatype ReadStyle = Average | PictureLazy

record Frame =
  frameId :: ByteVector
  frameClassType :: FrameClassType
  frame_flags :: "Id3v2FrameFlag set"
  frame_size :: nat
  frame_text :: "string list"
  frame_textEncoding :: StringType

text \<open>\<open>FrameTypes\<close>: the four-letter identifiers the tag names.\<close>

definition TDRC :: ByteVector where "TDRC = [0x54, 0x44, 0x52, 0x43]"
definition TYER :: ByteVector where "TYER = [0x54, 0x59, 0x45, 0x52]"
definition TDAT :: ByteVector where "TDAT = [0x54, 0x44, 0x41, 0x54]"
definition TIME :: ByteVector where "TIME = [0x54, 0x49, 0x4D, 0x45]"

text \<open>The static settings of the class, passed to every call that reads them.\<close>

record Id3v2TagStatics =
  defaultEncoding :: StringType
  defaultVersion :: byte
  forceDefaultVersion :: bool
  language :: "string option"

record Id3v2Tag =
  tag_header :: Header
  tag_frameList :: "Frame list"
  tag_performersRole :: "string list option"
  tag_extendedHeader :: "nat option"

text \<open>A call either returns a value or throws; on a throw the tag is returned as the call left
  it.\<close>

datatype 'a outcome = is_Returns: Returns (returned: 'a) | is_Throws: Throws (thrown: error)

text \<open>Modelled from the spec: a byte source with \<open>seek(position)\<close> and
  \<open>readBlock(size)\<close>.\<close>

record File =
  file_bytes :: ByteVector
  file_position :: nat

definition File_seek :: "nat \<Rightarrow> File \<Rightarrow> File" where
  "File_seek p f = f\<lparr>file_position := p\<rparr>"

definition File_readBlock :: "nat \<Rightarrow> File \<Rightarrow> ByteVector \<times> File" where
  "File_readBlock n f =
     (let block = take n (drop (file_position f) (file_bytes f))
      in (block, f\<lparr>file_position := file_position f + length block\<rparr>))"

datatype FrameRead = FrameRead (fr_frame: "Frame option") (fr_offset: int)

text \<open>The collaborators of the tag, as parameters: the frame factory, the size of the extended
  header and of a frame header, a frame's \<open>render\<close> and \<open>toString\<close>, and the static lookups of
  the frame classes. A lookup that may add a frame returns the position of its frame in the
  list of the tag it returns. The last parameter belongs to the run-time: whether spreading
  \<open>undefined\<close> into an argument list throws (the native spread does, the older down-level
  emit of the compiler does not). The build settings are not among the sources.\<close>

record Collab =
  createFrame :: "ByteVector option \<Rightarrow> File \<Rightarrow> int \<Rightarrow> byte \<Rightarrow> bool \<Rightarrow> FrameRead outcome"
  ExtendedHeader_size :: "ByteVector option \<Rightarrow> byte \<Rightarrow> nat outcome"
  FrameHeader_getSize :: "byte \<Rightarrow> int"
  Frame_render :: "Frame \<Rightarrow> byte \<Rightarrow> ByteVector outcome"
  Frame_toString :: "Frame \<Rightarrow> string"
  getTextInformationFrame :: "Id3v2Tag \<Rightarrow> ByteVector \<Rightarrow> bool \<Rightarrow> nat option \<times> Id3v2Tag"
  UrlLinkFrame_get :: "Id3v2Tag \<Rightarrow> ByteVector \<Rightarrow> bool \<Rightarrow> nat option \<times> Id3v2Tag"
  CommentsFrame_getPreferred :: "Id3v2Tag \<Rightarrow> string \<Rightarrow> string option \<Rightarrow> Frame option"
  Lyrics_getPreferred :: "Id3v2Tag \<Rightarrow> string \<Rightarrow> string option \<Rightarrow> Frame option"
  Lyrics_get :: "Id3v2Tag \<Rightarrow> string \<Rightarrow> string option \<Rightarrow> bool \<Rightarrow> nat option \<times> Id3v2Tag"
  spreadOfUndefinedThrows :: bool

subsection \<open>Frame list operations\<close>


definition addFrame :: "Frame \<Rightarrow> Id3v2Tag \<Rightarrow> Id3v2Tag" where
  "addFrame frame t = t\<lparr>tag_frameList := tag_frameList t @ [frame]\<rparr>"

text \<open>\<open>Array.splice(start, count)\<close> and \<open>Array.indexOf\<close> (-1 when absent).\<close>

definition Array_splice :: "'a list \<Rightarrow> nat \<Rightarrow> nat \<Rightarrow> 'a list" where
  "Array_splice xs start cnt = take start xs @ drop (start + cnt) xs"

fun indexOf :: "'a list \<Rightarrow> 'a \<Rightarrow> int" where
  "indexOf [] x = -1"
| "indexOf (y # ys) x =
     (if y = x then 0 else (let i = indexOf ys x in if i < 0 then -1 else i + 1))"

definition removeFrame :: "Frame \<Rightarrow> Id3v2Tag \<Rightarrow> Id3v2Tag" where
  "removeFrame frame t =
     (let index = indexOf (tag_frameList t) frame in
      if 0 \<le> index then t\<lparr>tag_frameList := Array_splice (tag_frameList t) (nat index) 1\<rparr> else t)"

definition getFramesByIdentifier ::
  "FrameClassType \<Rightarrow> ByteVector \<Rightarrow> Id3v2Tag \<Rightarrow> Frame list outcome \<times> Id3v2Tag" where
  "getFramesByIdentifier type ident t =
     (if length ident \<noteq> 4 then (Throws ArgumentOutOfRange, t)
      else (Returns (filter (\<lambda>f. frameClassType f = type \<and> frameId f = ident)
                       (tag_frameList t)), t))"

text \<open>The loop of \<open>removeFrames\<close> runs from the last index down to 0; the first argument counts
  the indices still to visit.\<close>

fun removeFrames_loop :: "nat \<Rightarrow> ByteVector \<Rightarrow> Frame list \<Rightarrow> Frame list" where
  "removeFrames_loop 0 ident fl = fl"
| "removeFrames_loop (Suc i) ident fl =
     removeFrames_loop i ident (if frameId (fl ! i) = ident then Array_splice fl i 1 else fl)"

definition removeFrames :: "ByteVector \<Rightarrow> Id3v2Tag \<Rightarrow> unit outcome \<times> Id3v2Tag" where
  "removeFrames ident t =
     (if length ident \<noteq> 4 then (Throws ArgumentOutOfRange, t)
      else (Returns (),
            t\<lparr>tag_frameList :=
                 removeFrames_loop (length (tag_frameList t)) ident (tag_frameList t)\<rparr>))"

text \<open>Assigning \<open>text\<close>, and \<open>textEncoding\<close>, of the frame at a position of the list.\<close>

definition setFrameText :: "nat \<Rightarrow> string list \<Rightarrow> Id3v2Tag \<Rightarrow> Id3v2Tag" where
  "setFrameText i txt t =
     t\<lparr>tag_frameList := (tag_frameList t)[i := (tag_frameList t ! i)\<lparr>frame_text := txt\<rparr>]\<rparr>"

definition setFrameTextEncoding :: "nat \<Rightarrow> StringType \<Rightarrow> Id3v2Tag \<Rightarrow> Id3v2Tag" where
  "setFrameTextEncoding i enc t =
     t\<lparr>tag_frameList :=
         (tag_frameList t)[i := (tag_frameList t ! i)\<lparr>frame_textEncoding := enc\<rparr>]\<rparr>"

definition setTextFrame ::
  "Collab \<Rightarrow> Id3v2TagStatics \<Rightarrow> ByteVector \<Rightarrow> string list \<Rightarrow> Id3v2Tag \<Rightarrow> unit outcome \<times> Id3v2Tag" where
  "setTextFrame k st ident txt t =
     (if length ident \<noteq> 4 then (Throws ArgumentOutOfRange, t)
      else
        let empty = list_all (\<lambda>s. s = []) txt in
        if empty then removeFrames ident t
        else if ident ! 0 = 0x57 then
          (case UrlLinkFrame_get k t ident True of
             (Some i, t1) \<Rightarrow>
               (Returns (), setFrameTextEncoding i (defaultEncoding st) (setFrameText i txt t1))
           | (None, t1) \<Rightarrow> (Throws TypeError, t1))
        else
          (case getTextInformationFrame k t ident True of
             (Some i, t1) \<Rightarrow>
               (Returns (), setFrameTextEncoding i (defaultEncoding st) (setFrameText i txt t1))
           | (None, t1) \<Rightarrow> (Throws TypeError, t1)))"

text \<open>\<open>Number.toString()\<close> of a non-negative integer and \<open>padStart(n, "0")\<close>.\<close>

fun toString_nat :: "nat \<Rightarrow> string" where
  "toString_nat n =
     (if n < 10 then [char_of (48 + n)]
      else toString_nat (n div 10) @ [char_of (48 + n mod 10)])"

definition padStart :: "string \<Rightarrow> nat \<Rightarrow> char \<Rightarrow> string" where
  "padStart s n c = replicate (n - length s) c @ s"

definition setNumberFrame ::
  "Collab \<Rightarrow> Id3v2TagStatics \<Rightarrow> ByteVector \<Rightarrow> int \<Rightarrow> int \<Rightarrow> int \<Rightarrow> Id3v2Tag
     \<Rightarrow> unit outcome \<times> Id3v2Tag" where
  "setNumberFrame k st ident numerator denominator minPlaces t =
     (if \<not> (0 \<le> numerator \<and> numerator < 2 ^ 32) then (Throws GuardFailure, t)
      else if \<not> (0 \<le> denominator \<and> denominator < 2 ^ 32) then (Throws GuardFailure, t)
      else if \<not> (0 \<le> minPlaces \<and> minPlaces \<le> 255) then (Throws GuardFailure, t)
      else if length ident \<noteq> 4 then (Throws ArgumentOutOfRange, t)
      else if numerator = 0 \<and> denominator = 0 then removeFrames ident t
      else if denominator \<noteq> 0 then
        (let formattedNumerator = padStart (toString_nat (nat numerator)) (nat minPlaces) (CHR ''0'')
         in setTextFrame k st ident [formattedNumerator @ ''/'' @ toString_nat (nat denominator)] t)
      else setTextFrame k st ident [toString_nat (nat numerator)] t)"

subsection \<open>The \<open>comment\<close> and \<open>lyrics\<close> setters\<close>

text \<open>The value assigned is a string or \<open>undefined\<close>; both \<open>undefined\<close> and the empty string
  are falsy.\<close>

definition falsy :: "string option \<Rightarrow> bool" where
  "falsy v = (v = None \<or> v = Some [])"

text \<open>The loop of both setters: while the lookup finds a frame, remove it and look again. The
  loop has no bound of its own, so not returning is the value \<open>None\<close>.\<close>

partial_function (option) removePreferred ::
  "(Id3v2Tag \<Rightarrow> Frame option) \<Rightarrow> Id3v2Tag \<Rightarrow> Id3v2Tag option" where
  "removePreferred getPreferred t =
     (case getPreferred t of
        None \<Rightarrow> Some t
      | Some frame \<Rightarrow> removePreferred getPreferred (removeFrame frame t))"

definition set_comment ::
  "Collab \<Rightarrow> Id3v2TagStatics \<Rightarrow> string option \<Rightarrow> Id3v2Tag \<Rightarrow> (unit outcome \<times> Id3v2Tag) option" where
  "set_comment k st v t =
     (if falsy v
      then map_option (Pair (Returns ()))
             (removePreferred (\<lambda>t'. CommentsFrame_getPreferred k t' [] (language st)) t)
      else Some (Returns (), t))"

definition set_lyrics ::
  "Collab \<Rightarrow> Id3v2TagStatics \<Rightarrow> string option \<Rightarrow> Id3v2Tag \<Rightarrow> (unit outcome \<times> Id3v2Tag) option" where
  "set_lyrics k st v t =
     (if falsy v
      then map_option (Pair (Returns ()))
             (removePreferred (\<lambda>t'. Lyrics_getPreferred k t' [] (language st)) t)
      else
        (case Lyrics_get k t [] (language st) True of
           (Some i, t1) \<Rightarrow>
             Some (Returns (),
                   setFrameTextEncoding i (defaultEncoding st) (setFrameText i [the v] t1))
         | (None, t1) \<Rightarrow> Some (Throws TypeError, t1)))"

subsection \<open>\<open>render\<close>\<close>













subsection \<open>\<open>parse\<close> and \<open>read\<close>\<close>

definition fullTagUnsync :: "Header \<Rightarrow> bool" where
  "fullTagUnsync h =
     (header_majorVersion h < 4 \<and> 0 < (header_flags h AND Unsynchronication))"

text \<open>The first step of \<open>parse\<close>: the buffer and the file after the conditional \<open>seek\<close> and
  \<open>readBlock\<close>. An absent buffer (\<open>undefined\<close>) is \<open>None\<close>; a buffer, even an empty one, is an
  object and so truthy.\<close>

definition parse_load ::
  "Header \<Rightarrow> ByteVector option \<Rightarrow> File \<Rightarrow> nat \<Rightarrow> ReadStyle set \<Rightarrow> ByteVector option \<times> File" where
  "parse_load h data file position style =
     (if data \<noteq> None \<and>
         (fullTagUnsync h \<or> header_tagSize h < 1024 \<or> PictureLazy \<in> style
          \<or> 0 < (header_flags h AND ExtendedHeader))
      then (case File_readBlock (header_tagSize h) (File_seek position file) of
              (block, file1) \<Rightarrow> (Some block, file1))
      else (data, file))"

text \<open>Resynchronising has to read the buffer, so with no buffer the call fails.\<close>

definition parse_resync :: "Header \<Rightarrow> ByteVector option \<Rightarrow> ByteVector option outcome" where
  "parse_resync h data =
     (if fullTagUnsync h then
        (case data of
           None \<Rightarrow> Throws TypeError
         | Some d \<Rightarrow> Returns (Some (SyncData_resyncByteVector d)))
      else Returns data)"

text \<open>The frame region: its start and end, and the size of the extended header when the flag
  asks for one. Reading \<open>data.length\<close> of an absent buffer fails.\<close>

definition parse_region ::
  "Collab \<Rightarrow> Header \<Rightarrow> ByteVector option \<Rightarrow> nat \<Rightarrow> (int \<times> int) outcome \<times> nat option" where
  "parse_region k h data position =
     (let frameDataPosition = (case data of Some d \<Rightarrow> 0 | None \<Rightarrow> int position);
          frameDataEndPosition =
            (case data of Some d \<Rightarrow> int (length d) | None \<Rightarrow> int (header_tagSize h))
            + frameDataPosition - FrameHeader_getSize k (header_majorVersion h)
      in
        if 0 < (header_flags h AND ExtendedHeader) then
          (case ExtendedHeader_size k data (header_majorVersion h) of
             Throws e \<Rightarrow> (Throws e, None)
           | Returns sz \<Rightarrow>
               (case data of
                  None \<Rightarrow> (Throws TypeError, Some sz)
                | Some d \<Rightarrow>
                    if sz \<le> length d
                    then (Returns (frameDataPosition + int sz, frameDataEndPosition - int sz),
                          Some sz)
                    else (Returns (frameDataPosition, frameDataEndPosition), Some sz)))
        else (Returns (frameDataPosition, frameDataEndPosition), None))"

text \<open>The locals of the frame loop: the position, and the first frame seen of each of the four
  date identifiers, kept as its position in the frame list.\<close>

record ParseLocals =
  frameDataPosition :: int
  p_tdrc :: "nat option"
  p_tyer :: "nat option"
  p_tdat :: "nat option"
  p_time :: "nat option"

definition remember :: "Frame \<Rightarrow> nat \<Rightarrow> ParseLocals \<Rightarrow> ParseLocals" where
  "remember frame i l =
     (if p_tdrc l = None \<and> frameId frame = TDRC then l\<lparr>p_tdrc := Some i\<rparr>
      else if p_tyer l = None \<and> frameId frame = TYER then l\<lparr>p_tyer := Some i\<rparr>
      else if p_tdat l = None \<and> frameId frame = TDAT then l\<lparr>p_tdat := Some i\<rparr>
      else if p_time l = None \<and> frameId frame = TIME then l\<lparr>p_time := Some i\<rparr>
      else l)"

text \<open>The frame loop. The factory is called at the current position; the position is assigned
  from its result, so a call that throws leaves the position where it was. The loop has no
  bound of its own, so not returning is the value \<open>None\<close>.\<close>

partial_function (option) Id3v2Tag_parse_loop ::
  "(int \<Rightarrow> FrameRead outcome) \<Rightarrow> byte \<Rightarrow> int \<Rightarrow> ParseLocals \<times> Id3v2Tag
     \<Rightarrow> (error option \<times> ParseLocals \<times> Id3v2Tag) option" where
  "Id3v2Tag_parse_loop factory mv frameDataEndPosition s =
     (let l = fst s; t = snd s in
      if \<not> frameDataPosition l < frameDataEndPosition then Some (None, l, t)
      else
        let r = factory (frameDataPosition l) in
        if is_Throws r then
          (if thrown r \<noteq> NotImplementedError \<and> thrown r \<noteq> CorruptFileError
           then Some (Some (thrown r), l, t)
           else Id3v2Tag_parse_loop factory mv frameDataEndPosition (l, t))
        else
          (let frameRead = returned r;
               l1 = l\<lparr>frameDataPosition := fr_offset frameRead\<rparr>
           in case fr_frame frameRead of
                None \<Rightarrow> Some (None, l1, t)
              | Some frame \<Rightarrow>
                  if frame_size frame = 0
                  then Id3v2Tag_parse_loop factory mv frameDataEndPosition (l1, t)
                  else if mv = 4
                  then Id3v2Tag_parse_loop factory mv frameDataEndPosition
                         (l1, addFrame frame t)
                  else Id3v2Tag_parse_loop factory mv frameDataEndPosition
                         (remember frame (length (tag_frameList t)) l1, addFrame frame t)))"

text \<open>\<open>String.substr(start, length)\<close>.\<close>

definition substr :: "string \<Rightarrow> nat \<Rightarrow> nat \<Rightarrow> string" where
  "substr s start len = take len (drop start s)"

text \<open>Where the frame at position \<open>i\<close> stands once the frames with the identifier are removed
  (the frame itself has another identifier).\<close>

definition positionAfterRemoval :: "ByteVector \<Rightarrow> Frame list \<Rightarrow> nat \<Rightarrow> nat" where
  "positionAfterRemoval ident fl i = length (filter (\<lambda>f. frameId f \<noteq> ident) (take i fl))"

text \<open>The step after the loop: the date and the time are folded into the text of the TDRC
  frame.\<close>

definition parse_dates :: "Collab \<Rightarrow> ParseLocals \<Rightarrow> Id3v2Tag \<Rightarrow> Id3v2Tag" where
  "parse_dates k l t =
     (case (p_tdrc l, p_tdat l) of
        (Some ri, Some di) \<Rightarrow>
          let fl = tag_frameList t in
          if length (Frame_toString k (fl ! ri)) \<noteq> 4 then t
          else
            let tdrcText = Frame_toString k (fl ! ri);
                tdatText = Frame_toString k (fl ! di)
            in
              if length tdatText = 4 then
                (let tdrcText1 = tdrcText @ ''-'' @ substr tdatText 0 2 @ ''-'' @ substr tdatText 2 2
                 in case p_time l of
                      Some ti \<Rightarrow>
                        let timeText = Frame_toString k (fl ! ti);
                            tdrcText2 =
                              (if length timeText = 4
                               then tdrcText1 @ ''T'' @ substr timeText 0 2 @ '':''
                                    @ substr timeText 2 2
                               else tdrcText1);
                            t1 = snd (removeFrames TDAT t)
                        in setFrameText (positionAfterRemoval TDAT fl ri) [tdrcText2] t1
                    | None \<Rightarrow> setFrameText ri [tdrcText1] t)
              else setFrameText ri [tdrcText] t
      | _ \<Rightarrow> t)"

definition Id3v2Tag_parse ::
  "Collab \<Rightarrow> ByteVector option \<Rightarrow> File \<Rightarrow> nat \<Rightarrow> ReadStyle set \<Rightarrow> Id3v2Tag
     \<Rightarrow> (unit outcome \<times> Id3v2Tag \<times> File) option" where
  "Id3v2Tag_parse k data file position style t =
     (let h = tag_header t in
      case parse_load h data file position style of
        (data1, file1) \<Rightarrow>
          (case parse_resync h data1 of
             Throws e \<Rightarrow> Some (Throws e, t, file1)
           | Returns data2 \<Rightarrow>
               (case parse_region k h data2 position of
                  (Throws e, ext) \<Rightarrow>
                    Some (Throws e,
                          (if ext = None then t else t\<lparr>tag_extendedHeader := ext\<rparr>), file1)
                | (Returns (startPosition, endPosition), ext) \<Rightarrow>
                    (let t1 = (if ext = None then t else t\<lparr>tag_extendedHeader := ext\<rparr>) in
                     case Id3v2Tag_parse_loop
                            (\<lambda>offset. createFrame k data2 file1 offset (header_majorVersion h)
                                         (fullTagUnsync h))
                            (header_majorVersion h) endPosition
                            (\<lparr>frameDataPosition = startPosition, p_tdrc = None, p_tyer = None,
                              p_tdat = None, p_time = None\<rparr>, t1) of
                       None \<Rightarrow> None
                     | Some (Some e, l, t2) \<Rightarrow> Some (Throws e, t2, file1)
                     | Some (None, l, t2) \<Rightarrow> Some (Returns (), parse_dates k l t2, file1)))))"

text \<open>\<open>read\<close>: the header is read at the position, and \<open>parse\<close> is called with no buffer.\<close>

definition Id3v2Tag_read ::
  "Collab \<Rightarrow> File \<Rightarrow> nat \<Rightarrow> ReadStyle set \<Rightarrow> Id3v2Tag \<Rightarrow> (unit outcome \<times> Id3v2Tag \<times> File) option" where
  "Id3v2Tag_read k file position style t =
     (if \<not> position < 2 ^ 32 then Some (Throws GuardFailure, t, file)
      else if int (length (file_bytes file)) - int headerSize < int position
      then Some (Throws ArgumentOutOfRange, t, file)
      else
        (case File_readBlock headerSize (File_seek position file) of
           (block, file1) \<Rightarrow>
             (case Header_fromData block of
                Inl e \<Rightarrow> Some (Throws e, t, file1)
              | Inr h \<Rightarrow>
                  if header_tagSize h = 0 then Some (Returns (), t\<lparr>tag_header := h\<rparr>, file1)
                  else Id3v2Tag_parse k None file1 (position + headerSize) style
                         (t\<lparr>tag_header := h\<rparr>))))"

subsection \<open>Stand-in collaborators for the concrete runs\<close>

text \<open>A factory that answers from a table of offsets (and reports no frame elsewhere), a frame
  that renders as its identifier, a byte that is 2 when the frame is marked as unsynchronised,
  and its text, and lookups that take the first frame of the class and identifier or add a
  fresh one.\<close>

definition scriptedFactory ::
  "(int \<times> FrameRead outcome) list
     \<Rightarrow> ByteVector option \<Rightarrow> File \<Rightarrow> int \<Rightarrow> byte \<Rightarrow> bool \<Rightarrow> FrameRead outcome" where
  "scriptedFactory script data file offset version unsync =
     (case map_of script offset of
        Some r \<Rightarrow> r
      | None \<Rightarrow> Returns (FrameRead None offset))"

fun firstIndex :: "('a \<Rightarrow> bool) \<Rightarrow> 'a list \<Rightarrow> nat option" where
  "firstIndex P [] = None"
| "firstIndex P (x # xs) = (if P x then Some 0 else map_option Suc (firstIndex P xs))"

definition newFrame :: "FrameClassType \<Rightarrow> ByteVector \<Rightarrow> Frame" where
  "newFrame cls ident =
     \<lparr>frameId = ident, frameClassType = cls, frame_flags = {}, frame_size = 0,
      frame_text = [], frame_textEncoding = UTF8\<rparr>"

definition findOrCreate ::
  "FrameClassType \<Rightarrow> Id3v2Tag \<Rightarrow> ByteVector \<Rightarrow> bool \<Rightarrow> nat option \<times> Id3v2Tag" where
  "findOrCreate cls t ident create =
     (case firstIndex (\<lambda>f. frameClassType f = cls \<and> frameId f = ident) (tag_frameList t) of
        Some i \<Rightarrow> (Some i, t)
      | None \<Rightarrow>
          if create then (Some (length (tag_frameList t)), addFrame (newFrame cls ident) t)
          else (None, t))"

definition COMM :: ByteVector where "COMM = [0x43, 0x4F, 0x4D, 0x4D]"
definition USLT :: ByteVector where "USLT = [0x55, 0x53, 0x4C, 0x54]"

definition standin :: "(int \<times> FrameRead outcome) list \<Rightarrow> Collab" where
  "standin script =
     \<lparr>createFrame = scriptedFactory script,
      ExtendedHeader_size = (\<lambda>data version. Returns 0),
      FrameHeader_getSize = (\<lambda>version. 10),
      Frame_render =
        (\<lambda>frame version.
           Returns (frameId frame @ [if Desynchronized \<in> frame_flags frame then 2 else 0]
                    @ map of_char (concat (frame_text frame)))),
      Frame_toString = (\<lambda>frame. concat (frame_text frame)),
      getTextInformationFrame = findOrCreate TextInformationFrame,
      UrlLinkFrame_get = findOrCreate UrlLinkFrame,
      CommentsFrame_getPreferred =
        (\<lambda>t description lang. find (\<lambda>f. frameClassType f = CommentsFrame) (tag_frameList t)),
      Lyrics_getPreferred =
        (\<lambda>t description lang. find (\<lambda>f. frameClassType f = UnsynchronizedLyricsFrame)
                                 (tag_frameList t)),
      Lyrics_get = (\<lambda>t description lang create. findOrCreate UnsynchronizedLyricsFrame t USLT create),
      spreadOfUndefinedThrows = False\<rparr>"

subsection \<open>Sample data for the concrete runs\<close>

text \<open>The statics with the initial values of the class, a text frame of one string, and a tag
  with a given header and frame list.\<close>

definition initialStatics :: Id3v2TagStatics where
  "initialStatics =
     \<lparr>defaultEncoding = UTF8, defaultVersion = 3, forceDefaultVersion = False, language = None\<rparr>"

definition textFrame :: "ByteVector \<Rightarrow> string \<Rightarrow> Frame" where
  "textFrame ident s =
     \<lparr>frameId = ident, frameClassType = TextInformationFrame, frame_flags = {},
      frame_size = Suc (length s), frame_text = [s], frame_textEncoding = Latin1\<rparr>"

definition sampleTag :: "byte \<Rightarrow> byte \<Rightarrow> nat \<Rightarrow> Frame list \<Rightarrow> Id3v2Tag" where
  "sampleTag version flags tagSize frames =
     \<lparr>tag_header = \<lparr>header_flags = flags, header_majorVersion = version,
                     header_revisionNumber = 0, header_tagSize = tagSize\<rparr>,
      tag_frameList = frames, tag_performersRole = None, tag_extendedHeader = None\<rparr>"

section \<open>Auxiliary notions for the statements\<close>

text \<open>The value of the four size bytes at offsets 6 to 9, read as groups of 7 bits.\<close>

definition synced4 :: "ByteVector \<Rightarrow> nat" where
  "synced4 d = unat (d ! 6) * 2 ^ 21 + unat (d ! 7) * 2 ^ 14 + unat (d ! 8) * 2 ^ 7 + unat (d ! 9)"









section \<open>Properties of the footer\<close>

lemma and_mask_pos_iff:
  fixes w :: byte
  shows "0 < (w AND mask n) \<longleftrightarrow> (\<exists>k<n. bit w k)"
proof -
  have "(w AND mask n = 0) \<longleftrightarrow> (\<forall>k<n. \<not> bit w k)"
  proof
    assume z: "w AND mask n = 0"
    show "\<forall>k<n. \<not> bit w k"
    proof (intro allI impI notI)
      fix k assume "k < n" "bit w k"
      then have "bit (w AND mask n) k"
        using bit_imp_le_length [of w k] by (simp add: bit_and_iff bit_mask_iff)
      with z show False by simp
    qed
  next
    assume "\<forall>k<n. \<not> bit w k"
    then show "w AND mask n = 0"
      by (auto simp add: bit_eq_iff bit_and_iff bit_mask_iff)
  qed
  then show ?thesis
    by (simp add: word_gt_0)
qed

lemma and_127_pos_iff: "0 < ((w::byte) AND 127) \<longleftrightarrow> (\<exists>k<7. bit w k)"
  using and_mask_pos_iff [of w 7] by (simp add: mask_eq_decr_exp)

lemma and_15_pos_iff: "0 < ((w::byte) AND 15) \<longleftrightarrow> (\<exists>k<4. bit w k)"
  using and_mask_pos_iff [of w 4] by (simp add: mask_eq_decr_exp)

lemma and_7_pos_iff: "0 < ((w::byte) AND 7) \<longleftrightarrow> (\<exists>k<3. bit w k)"
  using and_mask_pos_iff [of w 3] by (simp add: mask_eq_decr_exp)

lemma mid_6_4:
  assumes "10 \<le> length d"
  shows "mid d 6 4 = [d ! 6, d ! 7, d ! 8, d ! 9]"
proof -
  have "length (mid d 6 4) = 4" using assms by (simp add: mid_def)
  moreover have "\<And>i. i < 4 \<Longrightarrow> mid d 6 4 ! i = d ! (6 + i)"
    using assms by (simp add: mid_def)
  ultimately show ?thesis
    by (auto simp add: list_eq_iff_nth_eq nth_Cons' numeral_eq_Suc less_Suc_eq)
qed

lemma upt_6_10: "[6 ..< 10] = [6, 7, 8, 9::nat]"
  by (simp add: upt_rec)

lemma size_bytes_ex:
  "list_ex (\<lambda>i. 128 \<le> (d::ByteVector) ! i) [6 ..< 10] \<longleftrightarrow> (\<exists>i\<in>{6..9}. 128 \<le> d ! i)"
proof -
  have "{6..9::nat} = set [6 ..< 10]" by auto
  then show ?thesis by (simp only: list_ex_iff)
qed

lemma toUint_4:
  "SyncData_toUint [a, b, c, e] =
     (if 128 \<le> a \<or> 128 \<le> b \<or> 128 \<le> c \<or> 128 \<le> e then Inl FormatError
      else Inr (unat a * 2 ^ 21 + unat b * 2 ^ 14 + unat c * 2 ^ 7 + unat e))"
  by (simp add: SyncData_toUint_def)

lemma byte_lt_128: "\<not> 128 \<le> (b::byte) \<Longrightarrow> unat b < 128"
  by (simp add: word_le_nat_alt)

lemma synced4_bound:
  assumes "\<not> (\<exists>i\<in>{6..9}. 128 \<le> (d::ByteVector) ! i)"
  shows "synced4 d < 2 ^ 28"
proof -
  have "unat (d ! 6) < 128" "unat (d ! 7) < 128" "unat (d ! 8) < 128" "unat (d ! 9) < 128"
    using assms by (auto intro!: byte_lt_128)
  then show ?thesis by (simp add: synced4_def)
qed

lemma ex_6_9: "(\<exists>i\<in>{6..9::nat}. P i) \<longleftrightarrow> P 6 \<or> P 7 \<or> P 8 \<or> P 9"
proof -
  have "{6..9::nat} = {6, 7, 8, 9}" by auto
  then show ?thesis by simp
qed

lemma startsWith_3DI: "startsWith d Footer_fileIdentifier \<longleftrightarrow> take 3 d = [0x33, 0x44, 0x49]"
  by (simp add: startsWith_def Footer_fileIdentifier_def numeral_3_eq_3)

lemma Footer_fromData_eq:
  "Footer_fromData d =
     (if length d < 10 \<or> take 3 d \<noteq> [0x33, 0x44, 0x49]
         \<or> (d ! 3 = 2 \<and> 0 < (d ! 5 AND 127))
         \<or> (d ! 3 = 3 \<and> 0 < (d ! 5 AND 15))
         \<or> (d ! 3 = 4 \<and> 0 < (d ! 5 AND 7))
         \<or> 128 \<le> d ! 6 \<or> 128 \<le> d ! 7 \<or> 128 \<le> d ! 8 \<or> 128 \<le> d ! 9
      then Inl CorruptFileError
      else Inr \<lparr>footer_flags = d ! 5, footer_majorVersion = d ! 3,
                footer_revisionNumber = d ! 4, footer_tagSize = synced4 d\<rparr>)"
proof (cases "length d < 10 \<or> take 3 d \<noteq> [0x33, 0x44, 0x49]")
  case True
  then show ?thesis
    by (auto simp add: Footer_fromData_def footerSize_def startsWith_3DI)
next
  case False
  then have len: "10 \<le> length d" and pre: "take 3 d = [0x33, 0x44, 0x49]" by auto
  show ?thesis
  proof (cases "\<exists>i\<in>{6..9}. 128 \<le> d ! i")
    case True
    then have lx: "list_ex (\<lambda>i. 128 \<le> d ! i) [6 ..< 10] = True"
      by (simp only: size_bytes_ex)
    show ?thesis
      unfolding Footer_fromData_def lx
      using len pre True by (simp add: footerSize_def startsWith_3DI Let_def ex_6_9)
  next
    case nb: False
    then have b: "\<not> 128 \<le> d ! 6" "\<not> 128 \<le> d ! 7" "\<not> 128 \<le> d ! 8" "\<not> 128 \<le> d ! 9"
      by auto
    have s: "synced4 d < 2 ^ 32"
      using synced4_bound [OF nb] by simp
    have u: "SyncData_toUint (mid d 6 4) = Inr (synced4 d)"
      using b by (simp add: mid_6_4 [OF len] toUint_4 synced4_def)
    have lx: "list_ex (\<lambda>i. 128 \<le> d ! i) [6 ..< 10] = False"
      using nb by (simp only: size_bytes_ex)
    show ?thesis
      unfolding Footer_fromData_def lx
      using len pre nb s
      by (simp add: footerSize_def startsWith_3DI Let_def u Footer_set_tagSize_def ex_6_9)
  qed
qed

lemma unat_group: "unat (of_nat (x mod 128) :: byte) = x mod 128"
proof -
  have "x mod 128 < 256"
    by (rule less_trans [OF mod_less_divisor]) simp_all
  then show ?thesis by (simp add: unat_of_nat)
qed

lemma group_not_ge: "\<not> 128 \<le> (of_nat (x mod 128) :: byte)"
  by (simp add: word_le_nat_alt unat_group)

lemma groups_sum:
  assumes "v < 2 ^ 28"
  shows "(v div 2 ^ 21) mod 128 * 2 ^ 21 + (v div 2 ^ 14) mod 128 * 2 ^ 14
         + (v div 2 ^ 7) mod 128 * 2 ^ 7 + v mod 128 = (v::nat)"
proof -
  define q1 q2 q3 where "q1 = v div 128" and "q2 = q1 div 128" and "q3 = q2 div 128"
  define r0 r1 r2 where "r0 = v mod 128" and "r1 = q1 mod 128" and "r2 = q2 mod 128"
  have e: "v = 128 * q1 + r0" "q1 = 128 * q2 + r1" "q2 = 128 * q3 + r2"
    by (simp_all add: q1_def q2_def q3_def r0_def r1_def r2_def)
  have d: "v div 2 ^ 7 = q1" "v div 2 ^ 14 = q2" "v div 2 ^ 21 = q3"
    by (simp_all add: q1_def q2_def q3_def div_mult2_eq [symmetric])
  have "q3 < 128"
    using assms unfolding d(3) [symmetric] by (simp add: less_mult_imp_div_less)
  then have top: "q3 mod 128 = q3" by simp
  have "q3 * 2 ^ 21 + r2 * 2 ^ 14 + r1 * 2 ^ 7 + r0 = v"
    using e by simp
  then show ?thesis
    unfolding d top r0_def [symmetric] r1_def [symmetric] r2_def [symmetric] .
qed

lemma toUint_fromUint:
  assumes "v < 2 ^ 28"
  shows "SyncData_toUint (SyncData_fromUint v) = Inr v"
  unfolding SyncData_fromUint_def toUint_4
  by (simp only: group_not_ge unat_group groups_sum [OF assms] simp_thms if_False)

lemma Footer_render_nth:
  "length (Footer_render dv f) = 10"
  "take 3 (Footer_render dv f) = [0x33, 0x44, 0x49]"
  "Footer_render dv f ! 3 = Footer_get_majorVersion dv f"
  "Footer_render dv f ! 4 = footer_revisionNumber f"
  "Footer_render dv f ! 5 = footer_flags f"
  "mid (Footer_render dv f) 6 4 = SyncData_fromUint (footer_tagSize f)"
  by (simp_all add: Footer_render_def Footer_fileIdentifier_def SyncData_fromUint_def mid_def)

subsection \<open>C6: when \<open>Footer.fromData\<close> fails\<close>

text \<open>Claim C6. \<open>Footer.fromData\<close> fails with \<open>CorruptFileError\<close> exactly when the input is
  shorter than 10 bytes, or does not start with "3DI", or one of the four size bytes at offsets
  6 to 9 is 128 or more, or a flag bit illegal for the declared major version is set (version 2:
  one of bits 0 to 6; version 3: one of the low 4 bits; version 4: one of the low 3 bits). It
  fails with no other error, and on success \<open>tagSize\<close> is the sync-safe decoding of bytes 6 to 9:
  four groups of 7 bits, most significant first.\<close>

theorem Footer_fromData_corrupt_iff:
  "(Footer_fromData d = Inl CorruptFileError \<longleftrightarrow>
      (length d < 10 \<or> take 3 d \<noteq> [0x33, 0x44, 0x49]
       \<or> (\<exists>i\<in>{6..9}. 128 \<le> d ! i)
       \<or> (d ! 3 = 2 \<and> (\<exists>k<7. bit (d ! 5) k))
       \<or> (d ! 3 = 3 \<and> (\<exists>k<4. bit (d ! 5) k))
       \<or> (d ! 3 = 4 \<and> (\<exists>k<3. bit (d ! 5) k))))
   \<and> (\<forall>e. Footer_fromData d = Inl e \<longrightarrow> e = CorruptFileError)
   \<and> (\<forall>f. Footer_fromData d = Inr f \<longrightarrow>
         footer_tagSize f =
           unat (d ! 6) * 2 ^ 21 + unat (d ! 7) * 2 ^ 14 + unat (d ! 8) * 2 ^ 7 + unat (d ! 9))"
  unfolding Footer_fromData_eq [of d] and_127_pos_iff and_15_pos_iff and_7_pos_iff ex_6_9
  by (auto simp add: synced4_def)

text \<open>Witness for C6: a version 4 footer with the footer-present flag and size bytes 0, 0, 2, 1
  is accepted with size 257; the same bytes with flag bit 0 set are rejected.\<close>

theorem Footer_fromData_corrupt_iff_witness:
  "Footer_fromData [0x33, 0x44, 0x49, 4, 0, 0x10, 0, 0, 2, 1]
     = Inr \<lparr>footer_flags = 0x10, footer_majorVersion = 4, footer_revisionNumber = 0,
            footer_tagSize = 257\<rparr>
   \<and> Footer_fromData [0x33, 0x44, 0x49, 4, 0, 0x11, 0, 0, 2, 1] = Inl CorruptFileError"
proof -
  have "bit (0x11 :: byte) 0" by simp
  then have "\<exists>k<3. bit (0x11 :: byte) k" by (intro exI [of _ 0]) simp
  then have "Footer_fromData [0x33, 0x44, 0x49, 4, 0, 0x11, 0, 0, 2, 1] = Inl CorruptFileError"
    using Footer_fromData_corrupt_iff [of "[0x33, 0x44, 0x49, 4, 0, 0x11, 0, 0, 2, 1]"]
    by simp
  moreover have "Footer_fromData [0x33, 0x44, 0x49, 4, 0, 0x10, 0, 0, 2, 1]
     = Inr \<lparr>footer_flags = 0x10, footer_majorVersion = 4, footer_revisionNumber = 0,
            footer_tagSize = 257\<rparr>"
    by (simp add: Footer_fromData_eq synced4_def word_le_nat_alt)
  ultimately show ?thesis by simp
qed

subsection \<open>C7: the major version of a footer\<close>

text \<open>Counterexample for C7: \<open>fromData\<close> accepts ten bytes that declare major version 3, and
  the footer it returns reports version 3.\<close>

theorem Footer_fromData_version3_counterexample:
  "Footer_fromData [0x33, 0x44, 0x49, 3, 0, 0, 0, 0, 0, 0]
     = Inr \<lparr>footer_flags = 0, footer_majorVersion = 3, footer_revisionNumber = 0, footer_tagSize = 0\<rparr>
   \<and> Footer_get_majorVersion 4 \<lparr>footer_flags = 0, footer_majorVersion = 3,
        footer_revisionNumber = 0, footer_tagSize = 0\<rparr> \<noteq> 4"
  by (simp add: Footer_fromData_eq synced4_def Footer_get_majorVersion_def)

text \<open>Claim C7, amended. A footer built by \<open>fromData\<close> declares the major version byte found
  at offset 3 of the data, whatever it is; assigning a value other than 4 through the
  \<open>majorVersion\<close> setter fails and leaves the footer as it was, and assigning 4 stores 4.\<close>

theorem Footer_version_as_read_and_setter_only_4:
  "(\<forall>f. Footer_fromData d = Inr f \<longrightarrow> footer_majorVersion f = d ! 3)
   \<and> (v \<noteq> 4 \<longrightarrow> Footer_set_majorVersion v g = (Some ArgumentOutOfRange, g))
   \<and> Footer_set_majorVersion 4 g = (None, g\<lparr>footer_majorVersion := 4\<rparr>)"
  by (auto simp add: Footer_fromData_eq Footer_set_majorVersion_def split: if_splits)

text \<open>Witness for C7: the version 3 footer above, and the setter called with 3.\<close>

theorem Footer_version_as_read_and_setter_only_4_witness:
  "Footer_fromData [0x33, 0x44, 0x49, 3, 0, 0, 0, 0, 0, 0] \<noteq> Inl CorruptFileError
   \<and> footer_majorVersion (projr (Footer_fromData [0x33, 0x44, 0x49, 3, 0, 0, 0, 0, 0, 0])) = 3
   \<and> Footer_set_majorVersion 3 \<lparr>footer_flags = 0, footer_majorVersion = 4,
        footer_revisionNumber = 0, footer_tagSize = 0\<rparr>
      = (Some ArgumentOutOfRange, \<lparr>footer_flags = 0, footer_majorVersion = 4,
        footer_revisionNumber = 0, footer_tagSize = 0\<rparr>)"
  using Footer_version_as_read_and_setter_only_4 [of "[0x33, 0x44, 0x49, 3, 0, 0, 0, 0, 0, 0]" 3
      "\<lparr>footer_flags = 0, footer_majorVersion = 4, footer_revisionNumber = 0, footer_tagSize = 0\<rparr>"]
  by (simp add: Footer_fromData_eq synced4_def)

subsection \<open>C8: rendering a footer and reading it back\<close>

text \<open>Claim C8. For every footer whose flags are legal for its major version (no bit that
  \<open>fromData\<close> rejects for that version) and whose \<open>tagSize\<close> fits in 28 bits, \<open>render\<close>
  gives exactly 10 bytes, and \<open>fromData\<close> of these bytes succeeds with a footer equal to the
  first in major version, revision number, flags and tag size.\<close>

theorem Footer_render_fromData_roundtrip:
  assumes "(Footer_get_majorVersion dv f = 2 \<longrightarrow> footer_flags f AND 127 = 0)
         \<and> (Footer_get_majorVersion dv f = 3 \<longrightarrow> footer_flags f AND 15 = 0)
         \<and> (Footer_get_majorVersion dv f = 4 \<longrightarrow> footer_flags f AND 7 = 0)"
    and "footer_tagSize f < 2 ^ 28"
  shows "length (Footer_render dv f) = 10
       \<and> (\<exists>g. Footer_fromData (Footer_render dv f) = Inr g
              \<and> Footer_get_majorVersion dv g = Footer_get_majorVersion dv f
              \<and> footer_revisionNumber g = footer_revisionNumber f
              \<and> footer_flags g = footer_flags f
              \<and> footer_tagSize g = footer_tagSize f)"
proof -
  let ?d = "Footer_render dv f"
  have len: "10 \<le> length ?d"
    by (simp add: Footer_render_nth)
  have u: "SyncData_toUint (mid ?d 6 4) = Inr (footer_tagSize f)"
    by (simp only: Footer_render_nth toUint_fromUint [OF assms(2)])
  have nb: "\<not> (\<exists>i\<in>{6..9}. 128 \<le> ?d ! i)"
    unfolding size_bytes_ex [symmetric]
    by (simp add: upt_6_10 Footer_render_def Footer_fileIdentifier_def SyncData_fromUint_def
          group_not_ge)
  then have b: "\<not> 128 \<le> ?d ! 6" "\<not> 128 \<le> ?d ! 7" "\<not> 128 \<le> ?d ! 8" "\<not> 128 \<le> ?d ! 9"
    by auto
  have ts: "synced4 ?d = footer_tagSize f"
    using u b unfolding mid_6_4 [OF len] toUint_4 synced4_def by simp
  have "Footer_fromData ?d =
      Inr \<lparr>footer_flags = footer_flags f, footer_majorVersion = Footer_get_majorVersion dv f,
           footer_revisionNumber = footer_revisionNumber f, footer_tagSize = footer_tagSize f\<rparr>"
    unfolding Footer_fromData_eq [of ?d] ts
    using b assms(1) by (simp add: Footer_render_nth)
  then show ?thesis
    by (simp add: Footer_render_nth Footer_get_majorVersion_def)
qed

text \<open>Witness for C8: a version 4 footer with flags 0x90 and size 2000.\<close>

theorem Footer_render_fromData_roundtrip_witness:
  "length (Footer_render 3 \<lparr>footer_flags = 0x90, footer_majorVersion = 4,
      footer_revisionNumber = 0, footer_tagSize = 2000\<rparr>) = 10
   \<and> (\<exists>g. Footer_fromData (Footer_render 3 \<lparr>footer_flags = 0x90, footer_majorVersion = 4,
      footer_revisionNumber = 0, footer_tagSize = 2000\<rparr>) = Inr g
      \<and> Footer_get_majorVersion 3 g = 4 \<and> footer_revisionNumber g = 0
      \<and> footer_flags g = 0x90 \<and> footer_tagSize g = 2000)"
  using Footer_render_fromData_roundtrip [of 3 "\<lparr>footer_flags = 0x90, footer_majorVersion = 4,
      footer_revisionNumber = 0, footer_tagSize = 2000\<rparr>"]
  by (simp add: Footer_get_majorVersion_def)

section \<open>Properties of the frame list operations\<close>

lemma removeFrames_loop_filter:
  "n \<le> length fl \<Longrightarrow>
     removeFrames_loop n ident fl = filter (\<lambda>f. frameId f \<noteq> ident) (take n fl) @ drop n fl"
proof (induction n arbitrary: fl)
  case 0
  then show ?case by simp
next
  case (Suc i)
  then have i: "i < length fl" by simp
  show ?case
  proof (cases "frameId (fl ! i) = ident")
    case True
    let ?fl = "Array_splice fl i 1"
    have len: "i \<le> length ?fl" using i by (simp add: Array_splice_def)
    have "removeFrames_loop i ident ?fl
            = filter (\<lambda>f. frameId f \<noteq> ident) (take i ?fl) @ drop i ?fl"
      by (rule Suc.IH [OF len])
    also have "take i ?fl = take i fl" using i by (simp add: Array_splice_def)
    also have "drop i ?fl = drop (Suc i) fl" using i by (simp add: Array_splice_def)
    finally show ?thesis
      using True i by (simp add: take_Suc_conv_app_nth)
  next
    case False
    have "removeFrames_loop i ident fl
            = filter (\<lambda>f. frameId f \<noteq> ident) (take i fl) @ drop i fl"
      using Suc.IH [of fl] i by simp
    then show ?thesis
      using False i by (simp add: take_Suc_conv_app_nth Cons_nth_drop_Suc)
  qed
qed

lemma removeFrames_eq:
  "removeFrames ident t =
     (if length ident \<noteq> 4 then (Throws ArgumentOutOfRange, t)
      else (Returns (), t\<lparr>tag_frameList := filter (\<lambda>f. frameId f \<noteq> ident) (tag_frameList t)\<rparr>))"
  by (simp add: removeFrames_def removeFrames_loop_filter)

subsection \<open>C10: the identifier length check\<close>

text \<open>Claim C10. For an identifier whose length is not 4, each of \<open>getFramesByIdentifier\<close>,
  \<open>removeFrames\<close>, \<open>setTextFrame\<close> and \<open>setNumberFrame\<close> throws, and the tag, with its frame
  list, is as before the call. For an identifier of 4 bytes, \<open>removeFrames\<close> leaves exactly the
  frames with another identifier, in their order.\<close>

theorem identifier_length_checked_before_mutation:
  "(length ident \<noteq> 4 \<longrightarrow>
      (\<exists>e. getFramesByIdentifier type ident t = (Throws e, t))
    \<and> (\<exists>e. removeFrames ident t = (Throws e, t))
    \<and> (\<exists>e. setTextFrame k st ident txt t = (Throws e, t))
    \<and> (\<exists>e. setNumberFrame k st ident numerator denominator minPlaces t = (Throws e, t)))
   \<and> (length ident = 4 \<longrightarrow>
        removeFrames ident t =
          (Returns (),
           t\<lparr>tag_frameList := filter (\<lambda>f. frameId f \<noteq> ident) (tag_frameList t)\<rparr>))"
  by (simp add: removeFrames_eq getFramesByIdentifier_def setTextFrame_def setNumberFrame_def)

text \<open>Witness for C10: a two-byte identifier, and the removal of the TDAT frame from a tag of
  three frames.\<close>

theorem identifier_length_checked_before_mutation_witness:
  "(\<exists>e. getFramesByIdentifier TextInformationFrame [0x54, 0x44]
           (sampleTag 3 0 0 [textFrame TDRC ''1999'', textFrame TDAT ''1225'', textFrame TIME ''0930''])
         = (Throws e, sampleTag 3 0 0 [textFrame TDRC ''1999'', textFrame TDAT ''1225'', textFrame TIME ''0930'']))
   \<and> (\<exists>e. setNumberFrame (standin []) initialStatics [0x54, 0x44] 1 2 1
           (sampleTag 3 0 0 [textFrame TDRC ''1999'', textFrame TDAT ''1225'', textFrame TIME ''0930''])
         = (Throws e, sampleTag 3 0 0 [textFrame TDRC ''1999'', textFrame TDAT ''1225'', textFrame TIME ''0930'']))
   \<and> removeFrames TDAT
         (sampleTag 3 0 0 [textFrame TDRC ''1999'', textFrame TDAT ''1225'', textFrame TIME ''0930''])
       = (Returns (), sampleTag 3 0 0 [textFrame TDRC ''1999'', textFrame TIME ''0930''])"
  using identifier_length_checked_before_mutation
          [of "[0x54, 0x44]" TextInformationFrame
              "sampleTag 3 0 0 [textFrame TDRC ''1999'', textFrame TDAT ''1225'', textFrame TIME ''0930'']"
              "standin []" initialStatics "[]" 1 2 1]
        identifier_length_checked_before_mutation
          [of TDAT TextInformationFrame
              "sampleTag 3 0 0 [textFrame TDRC ''1999'', textFrame TDAT ''1225'', textFrame TIME ''0930'']"
              "standin []" initialStatics "[]" 1 2 1]
  by (simp add: sampleTag_def textFrame_def TDRC_def TDAT_def TIME_def)

subsection \<open>C9: the \<open>comment\<close> and \<open>lyrics\<close> setters\<close>

lemma indexOf_mem:
  "x \<in> set xs \<Longrightarrow> 0 \<le> indexOf xs x \<and> nat (indexOf xs x) < length xs"
  by (induction xs) (auto simp add: Let_def)

lemma indexOf_remove1:
  "x \<in> set xs \<Longrightarrow> Array_splice xs (nat (indexOf xs x)) 1 = remove1 x xs"
proof (induction xs)
  case Nil
  then show ?case by simp
next
  case (Cons y ys)
  show ?case
  proof (cases "y = x")
    case True
    then show ?thesis by (simp add: Array_splice_def)
  next
    case False
    with Cons.prems have m: "x \<in> set ys" by simp
    from indexOf_mem [OF m] have nn: "0 \<le> indexOf ys x" by simp
    then have "nat (indexOf ys x + 1) = Suc (nat (indexOf ys x))" by simp
    with Cons.IH [OF m] False nn show ?thesis
      by (simp add: Array_splice_def Let_def)
  qed
qed

lemma removeFrame_member:
  "frame \<in> set (tag_frameList t) \<Longrightarrow>
     removeFrame frame t = t\<lparr>tag_frameList := remove1 frame (tag_frameList t)\<rparr>"
  using indexOf_mem [of frame "tag_frameList t"] indexOf_remove1 [of frame "tag_frameList t"]
  by (simp add: removeFrame_def Let_def)

lemma filter_remove1_other:
  "\<not> P x \<Longrightarrow> filter P (remove1 x xs) = filter P xs"
  by (induction xs) auto

lemma removePreferred_returns:
  assumes gp: "\<And>t' f. gp t' = Some f \<Longrightarrow> f \<in> set (tag_frameList t')"
  shows "\<exists>t2. removePreferred gp t = Some t2 \<and> gp t2 = None
               \<and> set (tag_frameList t2) \<subseteq> set (tag_frameList t)
               \<and> t2 = t\<lparr>tag_frameList := tag_frameList t2\<rparr>
               \<and> (\<forall>P. (\<forall>t' f. gp t' = Some f \<longrightarrow> \<not> P f)
                      \<longrightarrow> filter P (tag_frameList t2) = filter P (tag_frameList t))"
proof (induction "length (tag_frameList t)" arbitrary: t rule: less_induct)
  case less
  show ?case
  proof (cases "gp t")
    case None
    then have "removePreferred gp t = Some t"
      by (subst removePreferred.simps) simp
    with None show ?thesis by simp
  next
    case (Some f)
    then have m: "f \<in> set (tag_frameList t)" by (rule gp)
    let ?t = "removeFrame f t"
    have eq: "?t = t\<lparr>tag_frameList := remove1 f (tag_frameList t)\<rparr>"
      by (rule removeFrame_member [OF m])
    have "length (tag_frameList ?t) < length (tag_frameList t)"
      using m by (simp add: eq length_remove1) (cases "tag_frameList t"; simp)
    from less [OF this] obtain t2 where
      t2: "removePreferred gp ?t = Some t2" "gp t2 = None"
          "set (tag_frameList t2) \<subseteq> set (tag_frameList ?t)"
          "t2 = ?t\<lparr>tag_frameList := tag_frameList t2\<rparr>"
          "\<forall>P. (\<forall>t' f. gp t' = Some f \<longrightarrow> \<not> P f)
                \<longrightarrow> filter P (tag_frameList t2) = filter P (tag_frameList ?t)"
      by blast
    have r: "removePreferred gp t = Some t2"
      by (subst removePreferred.simps) (simp add: Some t2(1))
    have s: "set (tag_frameList t2) \<subseteq> set (tag_frameList t)"
      using t2(3) set_remove1_subset [of f "tag_frameList t"] by (simp add: eq)
    have u: "t2 = t\<lparr>tag_frameList := tag_frameList t2\<rparr>"
      using t2(4) by (simp add: eq)
    have k: "\<forall>P. (\<forall>t' f. gp t' = Some f \<longrightarrow> \<not> P f)
                \<longrightarrow> filter P (tag_frameList t2) = filter P (tag_frameList t)"
    proof (intro allI impI)
      fix P assume np: "\<forall>t' f. gp t' = Some f \<longrightarrow> \<not> P f"
      then have "\<not> P f" using Some by blast
      then have "filter P (tag_frameList ?t) = filter P (tag_frameList t)"
        by (simp add: eq filter_remove1_other)
      with t2(5) np show "filter P (tag_frameList t2) = filter P (tag_frameList t)"
        by simp
    qed
    from r t2(2) s u k show ?thesis by blast
  qed
qed

lemma standin_lookups_member:
  "CommentsFrame_getPreferred (standin s) t' d l = Some f \<Longrightarrow> f \<in> set (tag_frameList t')"
  "Lyrics_getPreferred (standin s) t' d l = Some f \<Longrightarrow> f \<in> set (tag_frameList t')"
  by (auto simp add: standin_def find_Some_iff)

text \<open>Counterexample for C9: the \<open>lyrics\<close> setter, given a non-empty string, writes it into
  the lyrics frame of the tag.\<close>

theorem lyrics_setter_writes_counterexample:
  "set_lyrics (standin []) initialStatics (Some ''la'')
     (sampleTag 3 0 0
        [\<lparr>frameId = USLT, frameClassType = UnsynchronizedLyricsFrame, frame_flags = {},
          frame_size = 4, frame_text = [''old''], frame_textEncoding = Latin1\<rparr>])
   = Some (Returns (),
       sampleTag 3 0 0
        [\<lparr>frameId = USLT, frameClassType = UnsynchronizedLyricsFrame, frame_flags = {},
          frame_size = 4, frame_text = [''la''], frame_textEncoding = UTF8\<rparr>])"
  by (simp add: set_lyrics_def falsy_def standin_def findOrCreate_def sampleTag_def USLT_def
        initialStatics_def setFrameText_def setFrameTextEncoding_def)

text \<open>Claim C9, amended. For a non-empty string the \<open>comment\<close> setter returns with the tag
  unchanged, while the \<open>lyrics\<close> setter stores the string as the text of the frame that the
  lookup of the lyrics frame class returns, sets the text encoding of that frame to the default
  encoding, and changes nothing else. For an empty or undefined value each setter, given a
  lookup that answers with frames of the tag, returns after removing frames until the lookup
  finds none; it adds no frame, changes nothing but the frame list, and keeps, in their order,
  the frames that the lookup never returns: every filter that rejects all frames the lookup can
  return selects the same frames before and after.\<close>

theorem comment_never_writes_lyrics_writes:
  "(\<not> falsy v \<longrightarrow> set_comment k st v t = Some (Returns (), t))
   \<and> (\<not> falsy v \<longrightarrow>
        (\<forall>i t1. Lyrics_get k t [] (language st) True = (Some i, t1) \<and> i < length (tag_frameList t1)
           \<longrightarrow> (\<exists>t2. set_lyrics k st v t = Some (Returns (), t2)
                    \<and> t2 = t1\<lparr>tag_frameList :=
                                (tag_frameList t1)
                                  [i := (tag_frameList t1 ! i)
                                          \<lparr>frame_text := [the v],
                                           frame_textEncoding := defaultEncoding st\<rparr>]\<rparr>
                    \<and> length (tag_frameList t2) = length (tag_frameList t1)
                    \<and> frame_text (tag_frameList t2 ! i) = [the v]
                    \<and> frame_textEncoding (tag_frameList t2 ! i) = defaultEncoding st)))
   \<and> (falsy v \<and> (\<forall>t' f. CommentsFrame_getPreferred k t' [] (language st) = Some f
                      \<longrightarrow> f \<in> set (tag_frameList t'))
        \<longrightarrow> (\<exists>t2. set_comment k st v t = Some (Returns (), t2)
                 \<and> CommentsFrame_getPreferred k t2 [] (language st) = None
                 \<and> set (tag_frameList t2) \<subseteq> set (tag_frameList t)
                 \<and> t2 = t\<lparr>tag_frameList := tag_frameList t2\<rparr>
                 \<and> (\<forall>P. (\<forall>t' f. CommentsFrame_getPreferred k t' [] (language st) = Some f
                              \<longrightarrow> \<not> P f)
                        \<longrightarrow> filter P (tag_frameList t2) = filter P (tag_frameList t))))
   \<and> (falsy v \<and> (\<forall>t' f. Lyrics_getPreferred k t' [] (language st) = Some f
                      \<longrightarrow> f \<in> set (tag_frameList t'))
        \<longrightarrow> (\<exists>t2. set_lyrics k st v t = Some (Returns (), t2)
                 \<and> Lyrics_getPreferred k t2 [] (language st) = None
                 \<and> set (tag_frameList t2) \<subseteq> set (tag_frameList t)
                 \<and> t2 = t\<lparr>tag_frameList := tag_frameList t2\<rparr>
                 \<and> (\<forall>P. (\<forall>t' f. Lyrics_getPreferred k t' [] (language st) = Some f
                              \<longrightarrow> \<not> P f)
                        \<longrightarrow> filter P (tag_frameList t2) = filter P (tag_frameList t))))"
proof (intro conjI impI allI)
  assume "\<not> falsy v"
  then show "set_comment k st v t = Some (Returns (), t)"
    by (simp add: set_comment_def)
next
  fix i t1
  assume nf: "\<not> falsy v"
    and g: "Lyrics_get k t [] (language st) True = (Some i, t1) \<and> i < length (tag_frameList t1)"
  let ?t2 = "t1\<lparr>tag_frameList :=
                 (tag_frameList t1)
                   [i := (tag_frameList t1 ! i)
                           \<lparr>frame_text := [the v], frame_textEncoding := defaultEncoding st\<rparr>]\<rparr>"
  have "set_lyrics k st v t = Some (Returns (), ?t2)"
    using nf g by (simp add: set_lyrics_def setFrameText_def setFrameTextEncoding_def)
  moreover have "length (tag_frameList ?t2) = length (tag_frameList t1)"
    by simp
  moreover have "frame_text (tag_frameList ?t2 ! i) = [the v]"
    "frame_textEncoding (tag_frameList ?t2 ! i) = defaultEncoding st"
    using g by simp_all
  ultimately show "\<exists>t2. set_lyrics k st v t = Some (Returns (), t2)
                    \<and> t2 = ?t2
                    \<and> length (tag_frameList t2) = length (tag_frameList t1)
                    \<and> frame_text (tag_frameList t2 ! i) = [the v]
                    \<and> frame_textEncoding (tag_frameList t2 ! i) = defaultEncoding st"
    by blast
next
  assume a: "falsy v \<and> (\<forall>t' f. CommentsFrame_getPreferred k t' [] (language st) = Some f
                      \<longrightarrow> f \<in> set (tag_frameList t'))"
  then have gp: "\<And>t' f. CommentsFrame_getPreferred k t' [] (language st) = Some f
                   \<Longrightarrow> f \<in> set (tag_frameList t')"
    by blast
  from removePreferred_returns [of "\<lambda>t'. CommentsFrame_getPreferred k t' [] (language st)" t, OF gp]
  obtain t2 where
    "removePreferred (\<lambda>t'. CommentsFrame_getPreferred k t' [] (language st)) t = Some t2"
    "CommentsFrame_getPreferred k t2 [] (language st) = None"
    "set (tag_frameList t2) \<subseteq> set (tag_frameList t)"
    "t2 = t\<lparr>tag_frameList := tag_frameList t2\<rparr>"
    "\<forall>P. (\<forall>t' f. CommentsFrame_getPreferred k t' [] (language st) = Some f \<longrightarrow> \<not> P f)
          \<longrightarrow> filter P (tag_frameList t2) = filter P (tag_frameList t)"
    by blast
  then show "\<exists>t2. set_comment k st v t = Some (Returns (), t2)
                 \<and> CommentsFrame_getPreferred k t2 [] (language st) = None
                 \<and> set (tag_frameList t2) \<subseteq> set (tag_frameList t)
                 \<and> t2 = t\<lparr>tag_frameList := tag_frameList t2\<rparr>
                 \<and> (\<forall>P. (\<forall>t' f. CommentsFrame_getPreferred k t' [] (language st) = Some f
                              \<longrightarrow> \<not> P f)
                        \<longrightarrow> filter P (tag_frameList t2) = filter P (tag_frameList t))"
    using a by (simp add: set_comment_def)
next
  assume a: "falsy v \<and> (\<forall>t' f. Lyrics_getPreferred k t' [] (language st) = Some f
                      \<longrightarrow> f \<in> set (tag_frameList t'))"
  then have gp: "\<And>t' f. Lyrics_getPreferred k t' [] (language st) = Some f
                   \<Longrightarrow> f \<in> set (tag_frameList t')"
    by blast
  from removePreferred_returns [of "\<lambda>t'. Lyrics_getPreferred k t' [] (language st)" t, OF gp]
  obtain t2 where
    "removePreferred (\<lambda>t'. Lyrics_getPreferred k t' [] (language st)) t = Some t2"
    "Lyrics_getPreferred k t2 [] (language st) = None"
    "set (tag_frameList t2) \<subseteq> set (tag_frameList t)"
    "t2 = t\<lparr>tag_frameList := tag_frameList t2\<rparr>"
    "\<forall>P. (\<forall>t' f. Lyrics_getPreferred k t' [] (language st) = Some f \<longrightarrow> \<not> P f)
          \<longrightarrow> filter P (tag_frameList t2) = filter P (tag_frameList t)"
    by blast
  then show "\<exists>t2. set_lyrics k st v t = Some (Returns (), t2)
                 \<and> Lyrics_getPreferred k t2 [] (language st) = None
                 \<and> set (tag_frameList t2) \<subseteq> set (tag_frameList t)
                 \<and> t2 = t\<lparr>tag_frameList := tag_frameList t2\<rparr>
                 \<and> (\<forall>P. (\<forall>t' f. Lyrics_getPreferred k t' [] (language st) = Some f
                              \<longrightarrow> \<not> P f)
                        \<longrightarrow> filter P (tag_frameList t2) = filter P (tag_frameList t))"
    using a by (simp add: set_lyrics_def)
qed

text \<open>Witness for C9: both setters on a tag with a comment frame, or a lyrics frame, followed
  by a TDRC frame, with a string and with \<open>undefined\<close>. The string reaches the lyrics frame
  together with the default encoding and leaves the comment frame alone; \<open>undefined\<close> removes
  the comment frame, or the lyrics frame, and keeps the TDRC frame.\<close>

theorem comment_never_writes_lyrics_writes_witness:
  "set_comment (standin []) initialStatics (Some ''hi'')
      (sampleTag 3 0 0
        [\<lparr>frameId = COMM, frameClassType = CommentsFrame, frame_flags = {},
          frame_size = 4, frame_text = [''old''], frame_textEncoding = Latin1\<rparr>,
         textFrame TDRC ''1999''])
    = Some (Returns (),
        sampleTag 3 0 0
        [\<lparr>frameId = COMM, frameClassType = CommentsFrame, frame_flags = {},
          frame_size = 4, frame_text = [''old''], frame_textEncoding = Latin1\<rparr>,
         textFrame TDRC ''1999''])
   \<and> set_lyrics (standin []) initialStatics (Some ''la'')
      (sampleTag 3 0 0
        [\<lparr>frameId = USLT, frameClassType = UnsynchronizedLyricsFrame, frame_flags = {},
          frame_size = 4, frame_text = [''old''], frame_textEncoding = Latin1\<rparr>,
         textFrame TDRC ''1999''])
    = Some (Returns (),
        sampleTag 3 0 0
        [\<lparr>frameId = USLT, frameClassType = UnsynchronizedLyricsFrame, frame_flags = {},
          frame_size = 4, frame_text = [''la''], frame_textEncoding = UTF8\<rparr>,
         textFrame TDRC ''1999''])
   \<and> set_comment (standin []) initialStatics None
      (sampleTag 3 0 0
        [\<lparr>frameId = COMM, frameClassType = CommentsFrame, frame_flags = {},
          frame_size = 4, frame_text = [''old''], frame_textEncoding = Latin1\<rparr>,
         textFrame TDRC ''1999''])
    = Some (Returns (), sampleTag 3 0 0 [textFrame TDRC ''1999''])
   \<and> set_lyrics (standin []) initialStatics None
      (sampleTag 3 0 0
        [\<lparr>frameId = USLT, frameClassType = UnsynchronizedLyricsFrame, frame_flags = {},
          frame_size = 4, frame_text = [''old''], frame_textEncoding = Latin1\<rparr>,
         textFrame TDRC ''1999''])
    = Some (Returns (), sampleTag 3 0 0 [textFrame TDRC ''1999''])"
proof -
  let ?cf = "\<lparr>frameId = COMM, frameClassType = CommentsFrame, frame_flags = {},
          frame_size = 4, frame_text = [''old''], frame_textEncoding = Latin1\<rparr>"
  let ?lf = "\<lparr>frameId = USLT, frameClassType = UnsynchronizedLyricsFrame, frame_flags = {},
          frame_size = 4, frame_text = [''old''], frame_textEncoding = Latin1\<rparr>"
  let ?c = "sampleTag 3 0 0 [?cf, textFrame TDRC ''1999'']"
  let ?l = "sampleTag 3 0 0 [?lf, textFrame TDRC ''1999'']"
  let ?r = "sampleTag 3 0 0 [textFrame TDRC ''1999'']"
  let ?lang = "language initialStatics"
  have enc: "defaultEncoding initialStatics = UTF8"
    by (simp add: initialStatics_def)
  have nf: "\<not> falsy (Some ''hi'')" "\<not> falsy (Some ''la'')" "falsy (None :: string option)"
    by (simp_all add: falsy_def)
  have cl: "\<And>t'. CommentsFrame_getPreferred (standin []) t' [] ?lang
                  = find (\<lambda>f. frameClassType f = CommentsFrame) (tag_frameList t')"
    and ll: "\<And>t'. Lyrics_getPreferred (standin []) t' [] ?lang
                  = find (\<lambda>f. frameClassType f = UnsynchronizedLyricsFrame) (tag_frameList t')"
    by (simp_all add: standin_def)
  have rest: "\<And>Q fs (x::Frame). find Q fs = None \<Longrightarrow> filter (\<lambda>f. \<not> Q f) fs = [x] \<Longrightarrow> fs = [x]"
  proof -
    fix Q fs and x :: Frame
    assume "find Q fs = None" and f: "filter (\<lambda>f. \<not> Q f) fs = [x]"
    then have "\<forall>y\<in>set fs. \<not> Q y" by (simp add: find_None_iff)
    then have "filter (\<lambda>f. \<not> Q f) fs = fs" by simp
    with f show "fs = [x]" by simp
  qed
  note a = comment_never_writes_lyrics_writes [of "Some ''hi''" "standin []" initialStatics ?c]
  note b = comment_never_writes_lyrics_writes [of "Some ''la''" "standin []" initialStatics ?l]
  note c = comment_never_writes_lyrics_writes [of None "standin []" initialStatics ?c]
  note d = comment_never_writes_lyrics_writes [of None "standin []" initialStatics ?l]
  have 1: "set_comment (standin []) initialStatics (Some ''hi'') ?c = Some (Returns (), ?c)"
    by (rule a [THEN conjunct1, THEN mp, OF nf(1)])
  have g: "Lyrics_get (standin []) ?l [] ?lang True = (Some 0, ?l) \<and> 0 < length (tag_frameList ?l)"
    by (simp add: standin_def findOrCreate_def sampleTag_def USLT_def initialStatics_def)
  note b1 = b [THEN conjunct2, THEN conjunct1, THEN mp, OF nf(2), THEN spec, THEN spec, THEN mp, OF g]
  then have 2: "set_lyrics (standin []) initialStatics (Some ''la'') ?l
      = Some (Returns (),
          sampleTag 3 0 0
          [\<lparr>frameId = USLT, frameClassType = UnsynchronizedLyricsFrame, frame_flags = {},
            frame_size = 4, frame_text = [''la''], frame_textEncoding = UTF8\<rparr>,
           textFrame TDRC ''1999''])"
    by (clarsimp simp add: sampleTag_def enc)
  have mc: "\<forall>t' f. CommentsFrame_getPreferred (standin []) t' [] ?lang = Some f
              \<longrightarrow> f \<in> set (tag_frameList t')"
    and ml: "\<forall>t' f. Lyrics_getPreferred (standin []) t' [] ?lang = Some f
              \<longrightarrow> f \<in> set (tag_frameList t')"
    unfolding cl ll by (clarsimp simp add: find_Some_iff)+
  note c0 = c [THEN conjunct2, THEN conjunct2, THEN conjunct1, THEN mp, OF conjI [OF nf(3) mc]]
  then obtain t2 where
    c1: "set_comment (standin []) initialStatics None ?c = Some (Returns (), t2)"
    and c2: "CommentsFrame_getPreferred (standin []) t2 [] ?lang = None"
    and c3: "t2 = ?c\<lparr>tag_frameList := tag_frameList t2\<rparr>"
    and c4: "\<forall>P. (\<forall>t' f. CommentsFrame_getPreferred (standin []) t' [] ?lang = Some f \<longrightarrow> \<not> P f)
               \<longrightarrow> filter P (tag_frameList t2) = filter P (tag_frameList ?c)"
    by (elim conjE exE) (rule that)
  have "filter (\<lambda>f. \<not> frameClassType f = CommentsFrame) (tag_frameList t2)
                  = filter (\<lambda>f. \<not> frameClassType f = CommentsFrame) (tag_frameList ?c)"
    unfolding cl by (rule c4 [unfolded cl, THEN spec, THEN mp]) (clarsimp simp add: find_Some_iff)
  then have "filter (\<lambda>f. \<not> frameClassType f = CommentsFrame) (tag_frameList t2)
                  = [textFrame TDRC ''1999'']"
    by (simp add: sampleTag_def textFrame_def)
  with c2 [unfolded cl] have fl2: "tag_frameList t2 = [textFrame TDRC ''1999'']"
    by (rule rest)
  have "t2 = ?r"
    by (subst c3) (simp add: sampleTag_def fl2)
  with c1 have 3: "set_comment (standin []) initialStatics None ?c = Some (Returns (), ?r)"
    by simp
  note d0 = d [THEN conjunct2, THEN conjunct2, THEN conjunct2, THEN mp, OF conjI [OF nf(3) ml]]
  then obtain t3 where
    d1: "set_lyrics (standin []) initialStatics None ?l = Some (Returns (), t3)"
    and d2: "Lyrics_getPreferred (standin []) t3 [] ?lang = None"
    and d3: "t3 = ?l\<lparr>tag_frameList := tag_frameList t3\<rparr>"
    and d4: "\<forall>P. (\<forall>t' f. Lyrics_getPreferred (standin []) t' [] ?lang = Some f \<longrightarrow> \<not> P f)
               \<longrightarrow> filter P (tag_frameList t3) = filter P (tag_frameList ?l)"
    by (elim conjE exE) (rule that)
  have "filter (\<lambda>f. \<not> frameClassType f = UnsynchronizedLyricsFrame) (tag_frameList t3)
                  = filter (\<lambda>f. \<not> frameClassType f = UnsynchronizedLyricsFrame) (tag_frameList ?l)"
    by (rule d4 [unfolded ll, THEN spec, THEN mp]) (clarsimp simp add: find_Some_iff)
  then have "filter (\<lambda>f. \<not> frameClassType f = UnsynchronizedLyricsFrame) (tag_frameList t3)
                  = [textFrame TDRC ''1999'']"
    by (simp add: sampleTag_def textFrame_def)
  with d2 [unfolded ll] have fl3: "tag_frameList t3 = [textFrame TDRC ''1999'']"
    by (rule rest)
  have "t3 = ?r"
    by (subst d3) (simp add: sampleTag_def fl3)
  with d1 have 4: "set_lyrics (standin []) initialStatics None ?l = Some (Returns (), ?r)"
    by simp
  from 1 2 3 4 show ?thesis by (intro conjI)
qed

section \<open>Properties of \<open>render\<close>\<close>























subsection \<open>C5: the padding\<close>



subsection \<open>C4: what \<open>render\<close> changes, and rendering twice\<close>




section \<open>Properties of \<open>parse\<close> and \<open>read\<close>\<close>

lemma parse_loop_Some_not_stuck:
  assumes "Id3v2Tag_parse_loop factory mv endPos s = Some y"
  shows "\<not> (frameDataPosition (fst s) < endPos
            \<and> is_Throws (factory (frameDataPosition (fst s)))
            \<and> (thrown (factory (frameDataPosition (fst s))) = NotImplementedError
                \<or> thrown (factory (frameDataPosition (fst s))) = CorruptFileError))"
proof (rule Id3v2Tag_parse_loop.raw_induct
    [where P = "\<lambda>factory mv endPos s y.
        \<not> (frameDataPosition (fst s) < endPos
            \<and> is_Throws (factory (frameDataPosition (fst s)))
            \<and> (thrown (factory (frameDataPosition (fst s))) = NotImplementedError
                \<or> thrown (factory (frameDataPosition (fst s))) = CorruptFileError))",
     OF _ assms])
  fix loop :: "(int \<Rightarrow> FrameRead outcome) \<Rightarrow> byte \<Rightarrow> int \<Rightarrow> ParseLocals \<times> Id3v2Tag
     \<Rightarrow> (error option \<times> ParseLocals \<times> Id3v2Tag) option"
  fix factory mv endPos s y
  assume IH: "\<And>factory mv endPos s y. loop factory mv endPos s = Some y \<Longrightarrow>
        \<not> (frameDataPosition (fst s) < endPos
            \<and> is_Throws (factory (frameDataPosition (fst s)))
            \<and> (thrown (factory (frameDataPosition (fst s))) = NotImplementedError
                \<or> thrown (factory (frameDataPosition (fst s))) = CorruptFileError))"
  assume eq: "(let l = fst s; t = snd s in
      if \<not> frameDataPosition l < endPos then Some (None, l, t)
      else
        let r = factory (frameDataPosition l) in
        if is_Throws r then
          (if thrown r \<noteq> NotImplementedError \<and> thrown r \<noteq> CorruptFileError
           then Some (Some (thrown r), l, t)
           else loop factory mv endPos (l, t))
        else
          (let frameRead = returned r;
               l1 = l\<lparr>frameDataPosition := fr_offset frameRead\<rparr>
           in case fr_frame frameRead of
                None \<Rightarrow> Some (None, l1, t)
              | Some frame \<Rightarrow>
                  if frame_size frame = 0
                  then loop factory mv endPos (l1, t)
                  else if mv = 4
                  then loop factory mv endPos (l1, addFrame frame t)
                  else loop factory mv endPos
                         (remember frame (length (tag_frameList t)) l1, addFrame frame t))) = Some y"
  show "\<not> (frameDataPosition (fst s) < endPos
            \<and> is_Throws (factory (frameDataPosition (fst s)))
            \<and> (thrown (factory (frameDataPosition (fst s))) = NotImplementedError
                \<or> thrown (factory (frameDataPosition (fst s))) = CorruptFileError))"
  proof
    assume stuck: "frameDataPosition (fst s) < endPos
            \<and> is_Throws (factory (frameDataPosition (fst s)))
            \<and> (thrown (factory (frameDataPosition (fst s))) = NotImplementedError
                \<or> thrown (factory (frameDataPosition (fst s))) = CorruptFileError)"
    with eq have "loop factory mv endPos (fst s, snd s) = Some y"
      by (auto simp add: Let_def)
    then have "loop factory mv endPos s = Some y" by simp
    from IH [OF this] stuck show False by blast
  qed
qed

lemma parse_loop_stuck:
  assumes "frameDataPosition l < endPos"
    and "factory (frameDataPosition l) = Throws e"
    and "e = NotImplementedError \<or> e = CorruptFileError"
  shows "Id3v2Tag_parse_loop factory mv endPos (l, t) = None"
proof (cases "Id3v2Tag_parse_loop factory mv endPos (l, t)")
  case None
  then show ?thesis .
next
  case (Some y)
  from parse_loop_Some_not_stuck [OF Some] assms show ?thesis by auto
qed

lemma parse_loop_end:
  "\<not> frameDataPosition l < endPos \<Longrightarrow>
     Id3v2Tag_parse_loop factory mv endPos (l, t) = Some (None, l, t)"
  by (subst Id3v2Tag_parse_loop.simps) (simp add: Let_def)

lemma parse_loop_frame:
  assumes "frameDataPosition l < endPos"
    and "factory (frameDataPosition l) = Returns (FrameRead (Some frame) offset)"
    and "frame_size frame \<noteq> 0"
  shows "Id3v2Tag_parse_loop factory mv endPos (l, t) =
     Id3v2Tag_parse_loop factory mv endPos
       (if mv = 4 then l\<lparr>frameDataPosition := offset\<rparr>
        else remember frame (length (tag_frameList t)) (l\<lparr>frameDataPosition := offset\<rparr>),
        addFrame frame t)"
  using assms
  by (subst Id3v2Tag_parse_loop.simps) (simp add: Let_def)

lemma parse_loop_empty_frame:
  assumes "frameDataPosition l < endPos"
    and "factory (frameDataPosition l) = Returns (FrameRead (Some frame) offset)"
    and "frame_size frame = 0"
  shows "Id3v2Tag_parse_loop factory mv endPos (l, t) =
     Id3v2Tag_parse_loop factory mv endPos (l\<lparr>frameDataPosition := offset\<rparr>, t)"
  using assms
  by (subst Id3v2Tag_parse_loop.simps) (simp add: Let_def)

lemma parse_loop_no_frame:
  assumes "frameDataPosition l < endPos"
    and "factory (frameDataPosition l) = Returns (FrameRead None offset)"
  shows "Id3v2Tag_parse_loop factory mv endPos (l, t) =
     Some (None, l\<lparr>frameDataPosition := offset\<rparr>, t)"
  using assms
  by (subst Id3v2Tag_parse_loop.simps) (simp add: Let_def)

lemma parse_loop_other_error:
  assumes "frameDataPosition l < endPos"
    and "factory (frameDataPosition l) = Throws e"
    and "e \<noteq> NotImplementedError" "e \<noteq> CorruptFileError"
  shows "Id3v2Tag_parse_loop factory mv endPos (l, t) = Some (Some e, l, t)"
  using assms
  by (subst Id3v2Tag_parse_loop.simps) (simp add: Let_def)

lemma parse_loop_step:
  "frameDataPosition l < endPos \<Longrightarrow>
   Id3v2Tag_parse_loop factory mv endPos (l, t) =
     (case factory (frameDataPosition l) of
        Throws e \<Rightarrow>
          if e \<noteq> NotImplementedError \<and> e \<noteq> CorruptFileError then Some (Some e, l, t) else None
      | Returns r \<Rightarrow>
          (case fr_frame r of
             None \<Rightarrow> Some (None, l\<lparr>frameDataPosition := fr_offset r\<rparr>, t)
           | Some frame \<Rightarrow>
               if frame_size frame = 0
               then Id3v2Tag_parse_loop factory mv endPos (l\<lparr>frameDataPosition := fr_offset r\<rparr>, t)
               else Id3v2Tag_parse_loop factory mv endPos
                      (if mv = 4 then l\<lparr>frameDataPosition := fr_offset r\<rparr>
                       else remember frame (length (tag_frameList t))
                              (l\<lparr>frameDataPosition := fr_offset r\<rparr>),
                       addFrame frame t)))"
proof (cases "factory (frameDataPosition l)")
  case (Throws e)
  assume lt: "frameDataPosition l < endPos"
  show ?thesis
  proof (cases "e = NotImplementedError \<or> e = CorruptFileError")
    case True
    from parse_loop_stuck [where factory = factory and l = l, OF lt Throws True] show ?thesis
      using Throws True by auto
  next
    case False
    then show ?thesis
      using parse_loop_other_error [where factory = factory and l = l, OF lt Throws] Throws by simp
  qed
next
  case (Returns r)
  assume lt: "frameDataPosition l < endPos"
  show ?thesis
  proof (cases "fr_frame r")
    case None
    then have "factory (frameDataPosition l) = Returns (FrameRead None (fr_offset r))"
      using Returns by (cases r) simp
    from parse_loop_no_frame [where factory = factory and l = l, OF lt this] show ?thesis
      using Returns None by simp
  next
    case (Some frame)
    then have f: "factory (frameDataPosition l) = Returns (FrameRead (Some frame) (fr_offset r))"
      using Returns by (cases r) simp
    show ?thesis
    proof (cases "frame_size frame = 0")
      case True
      from parse_loop_empty_frame [where factory = factory and l = l, OF lt f True] show ?thesis
        using Returns Some True by simp
    next
      case False
      from parse_loop_frame [where factory = factory and l = l, OF lt f False] show ?thesis
        using Returns Some False by simp
    qed
  qed
qed

lemmas parse_eval =
  Id3v2Tag_parse_def parse_load_def parse_resync_def fullTagUnsync_def parse_region_def
  standin_def scriptedFactory_def sampleTag_def textFrame_def remember_def addFrame_def
  parse_dates_def substr_def setFrameText_def positionAfterRemoval_def
  TDRC_def TYER_def TDAT_def TIME_def Let_def
  ExtendedHeader_def Unsynchronication_def

lemma run_two_frames:
  "Id3v2Tag_parse
     (standin [(10, Returns (FrameRead (Some (textFrame TDRC ''1999'')) 30)),
               (30, Returns (FrameRead (Some (textFrame TDAT ''1225'')) 50))])
     None \<lparr>file_bytes = [], file_position = 0\<rparr> 10 {} (sampleTag 3 0 50 [])
   = Some (Returns (),
           sampleTag 3 0 50
             [(textFrame TDRC ''1999'')\<lparr>frame_text := [''1999-12-25'']\<rparr>, textFrame TDAT ''1225''],
           \<lparr>file_bytes = [], file_position = 0\<rparr>)"
  by (simp add: parse_eval parse_loop_step parse_loop_end)

lemma run_three_frames:
  "Id3v2Tag_parse
     (standin [(10, Returns (FrameRead (Some (textFrame TDRC ''1999'')) 30)),
               (30, Returns (FrameRead (Some (textFrame TDAT ''1225'')) 50)),
               (50, Returns (FrameRead (Some (textFrame TIME ''0930'')) 70))])
     None \<lparr>file_bytes = [], file_position = 0\<rparr> 10 {} (sampleTag 3 0 70 [])
   = Some (Returns (),
           sampleTag 3 0 70
             [(textFrame TDRC ''1999'')\<lparr>frame_text := [''1999-12-25T09:30'']\<rparr>,
              textFrame TIME ''0930''],
           \<lparr>file_bytes = [], file_position = 0\<rparr>)"
  by (simp add: parse_eval parse_loop_step parse_loop_end removeFrames_def Array_splice_def)

lemma run_skipped_frame:
  "Id3v2Tag_parse
     (standin [(10, Returns (FrameRead (Some (textFrame TDRC ''1999'')) 30)),
               (30, Throws NotImplementedError),
               (50, Returns (FrameRead (Some (textFrame TIME ''0930'')) 70))])
     None \<lparr>file_bytes = [], file_position = 0\<rparr> 10 {} (sampleTag 3 0 70 [])
   = None"
  by (simp add: parse_eval parse_loop_step parse_loop_end)

lemma run_skipped_frame_v4:
  "Id3v2Tag_parse
     (standin [(10, Returns (FrameRead (Some (textFrame TDRC ''1999'')) 30)),
               (30, Throws NotImplementedError),
               (50, Returns (FrameRead (Some (textFrame TIME ''0930'')) 70))])
     None \<lparr>file_bytes = [], file_position = 0\<rparr> 10 {} (sampleTag 4 0 70 [])
   = None"
  by (simp add: parse_eval parse_loop_step parse_loop_end)

lemma run_control_v4:
  "Id3v2Tag_parse
     (standin [(10, Returns (FrameRead (Some (textFrame TDRC ''1999'')) 30)),
               (30, Returns (FrameRead (Some (textFrame TIME ''0930'')) 50))])
     None \<lparr>file_bytes = [], file_position = 0\<rparr> 10 {} (sampleTag 4 0 50 [])
   = Some (Returns (), sampleTag 4 0 50 [textFrame TDRC ''1999'', textFrame TIME ''0930''],
           \<lparr>file_bytes = [], file_position = 0\<rparr>)"
  by (simp add: parse_eval parse_loop_step parse_loop_end)

lemma Header_fromData_sample:
  "Header_fromData [0x49, 0x44, 0x33, 3, 0, 0, 0, 0, 0, 50]
     = Inr \<lparr>header_flags = 0, header_majorVersion = 3, header_revisionNumber = 0,
            header_tagSize = 50\<rparr>"
  by (simp add: Header_fromData_def headerSize_def startsWith_def Header_fileIdentifier_def
        mid_def SyncData_toUint_def word_le_nat_alt upt_rec)

lemma run_read:
  "Id3v2Tag_read (standin [])
     \<lparr>file_bytes = [0x49, 0x44, 0x33, 3, 0, 0, 0, 0, 0, 50] @ replicate 50 0, file_position = 0\<rparr>
     0 {} (sampleTag 0 0 0 [])
   = Some (Returns (), sampleTag 3 0 50 [],
       \<lparr>file_bytes = [0x49, 0x44, 0x33, 3, 0, 0, 0, 0, 0, 50] @ replicate 50 0,
        file_position = 10\<rparr>)"
  by (simp add: Id3v2Tag_read_def File_seek_def File_readBlock_def headerSize_def
        Header_fromData_sample parse_eval parse_loop_step parse_loop_end)

subsection \<open>C1: a frame the factory refuses\<close>

text \<open>Claim C1 says that a frame for which the factory signals "not implemented" is skipped
  and the scan goes on behind it. In the code the position is assigned from the result of the
  factory only, so after the signal the factory is called at the same position again, for ever:
  on a stream of a well-formed frame, a frame that is not implemented and a well-formed frame,
  \<open>parse\<close> does not return, while on the two well-formed frames alone it returns both.\<close>

theorem parse_never_returns_after_skipped_frame:
  "Id3v2Tag_parse
     (standin [(10, Returns (FrameRead (Some (textFrame TDRC ''1999'')) 30)),
               (30, Throws NotImplementedError),
               (50, Returns (FrameRead (Some (textFrame TIME ''0930'')) 70))])
     None \<lparr>file_bytes = [], file_position = 0\<rparr> 10 {} (sampleTag 4 0 70 [])
   = None
   \<and> Id3v2Tag_parse
     (standin [(10, Returns (FrameRead (Some (textFrame TDRC ''1999'')) 30)),
               (30, Returns (FrameRead (Some (textFrame TIME ''0930'')) 50))])
     None \<lparr>file_bytes = [], file_position = 0\<rparr> 10 {} (sampleTag 4 0 50 [])
   = Some (Returns (), sampleTag 4 0 50 [textFrame TDRC ''1999'', textFrame TIME ''0930''],
           \<lparr>file_bytes = [], file_position = 0\<rparr>)"
  using run_skipped_frame_v4 run_control_v4 by (rule conjI)

subsection \<open>C2: folding the date into the TDRC frame\<close>

text \<open>Claim C2 says that after \<open>parse\<close> of a tag below version 4 with the year 1999 and the
  date 1225 the year frame reads 1999-12-25 and no date frame remains, with or without a time
  frame. The code removes the date frames inside the branch of the time frame: without a time
  frame the text is folded but the TDAT frame stays in the list; with the time frame 0930 the
  text is 1999-12-25T09:30 and the TDAT frame is gone.\<close>

theorem parse_keeps_date_frame_without_time_frame:
  "Id3v2Tag_parse
     (standin [(10, Returns (FrameRead (Some (textFrame TDRC ''1999'')) 30)),
               (30, Returns (FrameRead (Some (textFrame TDAT ''1225'')) 50))])
     None \<lparr>file_bytes = [], file_position = 0\<rparr> 10 {} (sampleTag 3 0 50 [])
   = Some (Returns (),
           sampleTag 3 0 50
             [(textFrame TDRC ''1999'')\<lparr>frame_text := [''1999-12-25'']\<rparr>, textFrame TDAT ''1225''],
           \<lparr>file_bytes = [], file_position = 0\<rparr>)
   \<and> Id3v2Tag_parse
     (standin [(10, Returns (FrameRead (Some (textFrame TDRC ''1999'')) 30)),
               (30, Returns (FrameRead (Some (textFrame TDAT ''1225'')) 50)),
               (50, Returns (FrameRead (Some (textFrame TIME ''0930'')) 70))])
     None \<lparr>file_bytes = [], file_position = 0\<rparr> 10 {} (sampleTag 3 0 70 [])
   = Some (Returns (),
           sampleTag 3 0 70
             [(textFrame TDRC ''1999'')\<lparr>frame_text := [''1999-12-25T09:30'']\<rparr>,
              textFrame TIME ''0930''],
           \<lparr>file_bytes = [], file_position = 0\<rparr>)"
  using run_two_frames run_three_frames by (rule conjI)

subsection \<open>C3: loading the whole tag\<close>

text \<open>Claim C3 says that on the read path the whole tag is read into memory when it is
  unsynchronised below version 4, or smaller than 1024 bytes, or read lazily, or has an extended
  header. The condition of the code starts with the buffer itself, and \<open>read\<close> passes none:
  with no buffer the first step of \<open>parse\<close> neither seeks nor reads, whatever the header and
  the read style; reading a file with a tag of 50 bytes leaves the file position behind the
  header.\<close>

theorem read_path_never_loads_the_tag:
  "parse_load h None file position style = (None, file)
   \<and> Id3v2Tag_read (standin [])
     \<lparr>file_bytes = [0x49, 0x44, 0x33, 3, 0, 0, 0, 0, 0, 50] @ replicate 50 0, file_position = 0\<rparr>
     0 {} (sampleTag 0 0 0 [])
   = Some (Returns (), sampleTag 3 0 50 [],
       \<lparr>file_bytes = [0x49, 0x44, 0x33, 3, 0, 0, 0, 0, 0, 50] @ replicate 50 0,
        file_position = 10\<rparr>)"
  using run_read by (simp add: parse_load_def)

end
